theory Spec2Isabelle
  imports Main "HOL-Library.AList"
begin

section \<open>cupy/_environment.py: toolkit discovery and library preloading\<close>

text \<open>
  The module keeps its caches in module-level globals and talks to the operating system
  through \<^verbatim>\<open>os.environ\<close>, \<^verbatim>\<open>os.path\<close>, \<^verbatim>\<open>shutil.which\<close>, \<^verbatim>\<open>json.load\<close>,
  \<^verbatim>\<open>ctypes.CDLL\<close> and \<^verbatim>\<open>warnings.warn\<close>. The globals are the record \<open>state\<close>,
  threaded through every function; the operating system is the record \<open>env\<close>, read only.
  A Python name with a leading underscore (\<^verbatim>\<open>_cuda_path\<close>, \<^verbatim>\<open>_get_cuda_path\<close>) is
  written with the prefix \<open>u_\<close>.
\<close>

subsection \<open>Values read from the manifest\<close>

text \<open>What \<^verbatim>\<open>json.load\<close> returns: \<open>JNull\<close> is Python's \<^verbatim>\<open>None\<close>, a JSON object is a
  dict, here an association list looked up with \<open>map_of\<close>.\<close>

datatype json =
    JNull
  | JBool bool
  | JNum int
  | JStr string
  | JList "json list"
  | JDict "(string \<times> json) list"

text \<open>Exceptions. \<open>Raised name msg\<close> is any other subclass of \<^verbatim>\<open>Exception\<close>, with its
  type name and its text: what \<^verbatim>\<open>json.load(open(..))\<close>, \<^verbatim>\<open>ctypes.CDLL\<close> and
  \<^verbatim>\<open>os.getcwd\<close> raise, and the \<^verbatim>\<open>UserWarning\<close> that \<^verbatim>\<open>warnings.warn\<close> raises under an
  error filter.\<close>

datatype exn =
    KeyError string
  | TypeError string
  | Raised string string

fun exn_name :: "exn \<Rightarrow> string" where
  "exn_name (KeyError k) = ''KeyError''"
| "exn_name (TypeError m) = ''TypeError''"
| "exn_name (Raised n m) = n"

fun exn_str :: "exn \<Rightarrow> string" where
  "exn_str (KeyError k) = [CHR 0x27] @ k @ [CHR 0x27]"
| "exn_str (TypeError m) = m"
| "exn_str (Raised n m) = m"

text \<open>A message is the literal text, or a format string with the values substituted for
  its \<^verbatim>\<open>{}\<close> fields, kept unevaluated: \<open>Format t args\<close> stands for
  \<^verbatim>\<open>t.format(*args)\<close>.\<close>

datatype msg = Text string | Format string "json list"

type_synonym handle = nat

text \<open>Instrumentation: every call that touches the file system is recorded.\<close>

datatype probe =
    Exists string
  | IsDir string
  | Which string "string option"
  | ReadJson string

subsection \<open>The operating system\<close>

record env =
  environ :: "string \<rightharpoonup> string"
  fs_exists :: "string \<Rightarrow> bool"
  fs_isdir :: "string \<Rightarrow> bool"
  which :: "string \<Rightarrow> string option \<Rightarrow> string option"
  path_join :: "string \<Rightarrow> string list \<Rightarrow> string"
  path_dirname :: "string \<Rightarrow> string"
  path_abspath :: "string \<Rightarrow> string"
  path_expanduser :: "string \<Rightarrow> string"
  sys_platform :: string
  module_file :: string
  json_load_open :: "string \<Rightarrow> exn + json"
  CDLL :: "json \<Rightarrow> exn + handle"
  path_isabs :: "string \<Rightarrow> bool"
  getcwd :: "exn + string"
  warnings_error :: bool

text \<open>\<open>path_abspath\<close> is the value of \<^verbatim>\<open>os.path.abspath\<close> when it returns; \<open>getcwd\<close> is
  \<^verbatim>\<open>os.getcwd()\<close>, which raises when the working directory has been removed.
  \<open>warnings_error\<close> says that the warnings filter in force turns a \<^verbatim>\<open>UserWarning\<close>
  into an exception, as \<^verbatim>\<open>python -W error\<close> and \<^verbatim>\<open>warnings.simplefilter('error')\<close>
  do.\<close>

text \<open>\<^verbatim>\<open>posixpath.join\<close> and \<^verbatim>\<open>posixpath.dirname\<close> of the standard library, the
  \<^verbatim>\<open>os.path\<close> functions of every platform but Windows; concrete environments use them
  for \<open>path_join\<close> and \<open>path_dirname\<close>.\<close>

fun posix_join :: "string \<Rightarrow> string list \<Rightarrow> string" where
  "posix_join path [] = path"
| "posix_join path (b # p) =
     posix_join
       (if take 1 b = ''/'' then b
        else if path = [] \<or> last path = CHR ''/'' then path @ b
        else path @ ''/'' @ b) p"

definition rstrip :: "char \<Rightarrow> string \<Rightarrow> string" where
  "rstrip c p = rev (dropWhile (\<lambda>x. x = c) (rev p))"

definition posix_dirname :: "string \<Rightarrow> string" where
  "posix_dirname p =
     (let head = rev (dropWhile (\<lambda>x. x \<noteq> CHR ''/'') (rev p))
      in if head \<noteq> [] \<and> head \<noteq> replicate (length head) (CHR ''/'')
         then rstrip (CHR ''/'') head else head)"

text \<open>\<^verbatim>\<open>posixpath.normpath\<close>, \<^verbatim>\<open>posixpath.abspath\<close> with the working directory
  \<open>cwd\<close>, and \<^verbatim>\<open>posixpath.expanduser\<close> with the home directory \<open>home\<close> (a user name
  after the tilde is left as it is).\<close>

fun split_sep :: "string \<Rightarrow> string list" where
  "split_sep [] = [[]]"
| "split_sep (c # cs) =
     (if c = CHR ''/'' then [] # split_sep cs
      else (case split_sep cs of [] \<Rightarrow> [[c]] | part # parts \<Rightarrow> (c # part) # parts))"

fun norm_comps :: "bool \<Rightarrow> string list \<Rightarrow> string list \<Rightarrow> string list" where
  "norm_comps initial_slashes new_parts [] = rev new_parts"
| "norm_comps initial_slashes new_parts (part # parts) =
     (if part = [] \<or> part = ''.'' then norm_comps initial_slashes new_parts parts
      else if part \<noteq> ''..'' \<or> (\<not> initial_slashes \<and> new_parts = []) \<or>
              (new_parts \<noteq> [] \<and> hd new_parts = ''..'')
      then norm_comps initial_slashes (part # new_parts) parts
      else if new_parts \<noteq> [] then norm_comps initial_slashes (tl new_parts) parts
      else norm_comps initial_slashes new_parts parts)"

fun join_sep :: "string list \<Rightarrow> string" where
  "join_sep [] = []"
| "join_sep [part] = part"
| "join_sep (part # parts) = part @ ''/'' @ join_sep parts"

definition posix_normpath :: "string \<Rightarrow> string" where
  "posix_normpath path =
     (if path = [] then ''.''
      else
        (let initial_slashes =
               (if take 1 path \<noteq> ''/'' then 0
                else if take 2 path = ''//'' \<and> take 3 path \<noteq> ''///'' then 2 else 1 :: nat);
             parts = norm_comps (initial_slashes \<noteq> 0) [] (split_sep path);
             p = replicate initial_slashes (CHR ''/'') @ join_sep parts
         in if p = [] then ''.'' else p))"

definition posix_isabs :: "string \<Rightarrow> bool" where
  "posix_isabs p = (take 1 p = ''/'')"

definition posix_abspath :: "string \<Rightarrow> string \<Rightarrow> string" where
  "posix_abspath cwd path =
     posix_normpath (if posix_isabs path then path else posix_join cwd [path])"

definition posix_expanduser :: "string \<Rightarrow> string \<Rightarrow> string" where
  "posix_expanduser home path =
     (if path = ''~'' \<or> take 2 path = ''~/'' then rstrip (CHR ''/'') home @ drop 1 path
      else path)"

subsection \<open>The module's globals\<close>

text \<open>
  \<^verbatim>\<open># '' for uninitialized, None for non-existing\<close>: a cached path is a Python
  string or \<^verbatim>\<open>None\<close>, so \<open>Some ''''\<close> is the uninitialized cache and \<open>None\<close> the
  cached absence. \<open>u_preload_config\<close> is \<open>JNull\<close> while nothing is cached.
  \<open>warnings\<close>, \<open>fs_probes\<close> and \<open>cdll_calls\<close> record the calls of
  \<^verbatim>\<open>warnings.warn\<close>, of the file system functions and of \<^verbatim>\<open>ctypes.CDLL\<close>.
\<close>

record state =
  u_cuda_path :: "string option"
  u_nvcc_path :: "string option"
  u_cub_path :: "string option"
  u_preload_config :: json
  u_preload_libs :: "(string \<times> (json \<times> handle) option) list"
  u_preload_logs :: "msg list"
  warnings :: "msg list"
  fs_probes :: "probe list"
  cdll_calls :: "json list"

definition init_state :: state where
  "init_state =
     \<lparr> u_cuda_path = Some '''', u_nvcc_path = Some '''', u_cub_path = Some '''',
       u_preload_config = JNull, u_preload_libs = [(''cudnn'', None)],
       u_preload_logs = [], warnings = [], fs_probes = [], cdll_calls = [] \<rparr>"

definition u_log :: "msg \<Rightarrow> state \<Rightarrow> state" where
  "u_log m s = s\<lparr>u_preload_logs := u_preload_logs s @ [m]\<rparr>"


subsection \<open>Calls into the operating system\<close>

text \<open>\<^verbatim>\<open>os.path.exists('')\<close> and \<^verbatim>\<open>os.path.isdir('')\<close> are false on every file
  system.\<close>

definition file_exists :: "env \<Rightarrow> string \<Rightarrow> bool" where
  "file_exists e p = (p \<noteq> [] \<and> fs_exists e p)"

definition is_dir :: "env \<Rightarrow> string \<Rightarrow> bool" where
  "is_dir e p = (p \<noteq> [] \<and> fs_isdir e p)"

definition os_path_exists :: "env \<Rightarrow> string \<Rightarrow> state \<Rightarrow> bool \<times> state" where
  "os_path_exists e p s = (file_exists e p, s\<lparr>fs_probes := fs_probes s @ [Exists p]\<rparr>)"

definition os_path_isdir :: "env \<Rightarrow> string \<Rightarrow> state \<Rightarrow> bool \<times> state" where
  "os_path_isdir e p s = (is_dir e p, s\<lparr>fs_probes := fs_probes s @ [IsDir p]\<rparr>)"

definition shutil_which :: "env \<Rightarrow> string \<Rightarrow> string option \<Rightarrow> state \<Rightarrow> string option \<times> state" where
  "shutil_which e cmd path s =
     (which e cmd path, s\<lparr>fs_probes := fs_probes s @ [Which cmd path]\<rparr>)"

definition json_load :: "env \<Rightarrow> string \<Rightarrow> state \<Rightarrow> (exn + json) \<times> state" where
  "json_load e p s = (json_load_open e p, s\<lparr>fs_probes := fs_probes s @ [ReadJson p]\<rparr>)"

definition ctypes_CDLL :: "env \<Rightarrow> json \<Rightarrow> state \<Rightarrow> (exn + handle) \<times> state" where
  "ctypes_CDLL e name s = (CDLL e name, s\<lparr>cdll_calls := cdll_calls s @ [name]\<rparr>)"

text \<open>\<^verbatim>\<open>warnings.warn(text)\<close>: the call is recorded; under a filter that turns warnings
  into exceptions it raises \<^verbatim>\<open>UserWarning(text)\<close>, otherwise it returns.\<close>

definition warnings_warn :: "env \<Rightarrow> string \<Rightarrow> state \<Rightarrow> (exn + unit) \<times> state" where
  "warnings_warn e text s =
     (if warnings_error e then Inl (Raised ''UserWarning'' text) else Inr (),
      s\<lparr>warnings := warnings s @ [Text text]\<rparr>)"

text \<open>\<^verbatim>\<open>os.path.abspath\<close>: a path that is not absolute is joined to the working directory,
  and \<^verbatim>\<open>os.getcwd()\<close> raises when that directory is gone.\<close>

definition os_path_abspath :: "env \<Rightarrow> string \<Rightarrow> exn + string" where
  "os_path_abspath e p =
     (if path_isabs e p then Inr (path_abspath e p)
      else (case getcwd e of Inl x \<Rightarrow> Inl x | Inr cwd \<Rightarrow> Inr (path_abspath e p)))"

text \<open>\<^verbatim>\<open>os.environ.get(k, d)\<close>.\<close>

definition environ_get :: "env \<Rightarrow> string \<Rightarrow> string \<Rightarrow> string" where
  "environ_get e k d = (case environ e k of None \<Rightarrow> d | Some v \<Rightarrow> v)"

subsection \<open>Path resolvers\<close>

definition u_get_cuda_path :: "env \<Rightarrow> state \<Rightarrow> string option \<times> state" where
  "u_get_cuda_path e s =
     (let cuda_path = environ_get e ''CUDA_PATH'' '''';
          (ex, s1) = os_path_exists e cuda_path s
      in if ex then (Some cuda_path, s1)
         else
           (let (nvcc_path, s2) = shutil_which e ''nvcc'' None s1
            in (case nvcc_path of
                  Some p \<Rightarrow> (Some (path_dirname e (path_dirname e p)), s2)
                | None \<Rightarrow>
                    (let (ex2, s3) = os_path_exists e ''/usr/local/cuda'' s2
                     in if ex2 then (Some ''/usr/local/cuda'', s3) else (None, s3)))))"

definition get_cuda_path :: "env \<Rightarrow> state \<Rightarrow> string option \<times> state" where
  "get_cuda_path e s =
     (if u_cuda_path s = Some ''''
      then (let (r, s1) = u_get_cuda_path e s in (r, s1\<lparr>u_cuda_path := r\<rparr>))
      else (u_cuda_path s, s))"

definition u_get_nvcc_path :: "env \<Rightarrow> state \<Rightarrow> string option \<times> state" where
  "u_get_nvcc_path e s =
     (case environ e ''NVCC'' of
        Some nvcc_path \<Rightarrow> (Some nvcc_path, s)
      | None \<Rightarrow>
          (let (cuda_path, s1) = get_cuda_path e s
           in (case cuda_path of
                 None \<Rightarrow> (None, s1)
               | Some c \<Rightarrow> shutil_which e ''nvcc'' (Some (path_join e c [''bin''])) s1)))"

definition get_nvcc_path :: "env \<Rightarrow> state \<Rightarrow> string option \<times> state" where
  "get_nvcc_path e s =
     (if u_nvcc_path s = Some ''''
      then (let (r, s1) = u_get_nvcc_path e s in (r, s1\<lparr>u_nvcc_path := r\<rparr>))
      else (u_nvcc_path s, s))"

definition u_get_cub_path :: "env \<Rightarrow> state \<Rightarrow> string option \<times> state" where
  "u_get_cub_path e s =
     (let (cuda_path, s1) = get_cuda_path e s;
          current_dir = path_dirname e (path_abspath e (module_file e));
          (bundled, s2) =
             os_path_isdir e (path_join e current_dir [''core/include/cupy/cub'']) s1
      in if bundled then (Some ''<bundle>'', s2)
         else
           (case cuda_path of
              None \<Rightarrow> (None, s2)
            | Some c \<Rightarrow>
                (let (sys, s3) = os_path_isdir e (path_join e c [''include/cub'']) s2
                 in if sys then (Some ''<CUDA>'', s3) else (None, s3))))"

definition get_cub_path :: "env \<Rightarrow> state \<Rightarrow> string option \<times> state" where
  "get_cub_path e s =
     (if u_cub_path s = Some ''''
      then (let (r, s1) = u_get_cub_path e s in (r, s1\<lparr>u_cub_path := r\<rparr>))
      else (u_cub_path s, s))"

subsection \<open>Subscripting and membership on manifest values\<close>

text \<open>\<^verbatim>\<open>x[k]\<close> with a string key: a dict looks the key up and raises KeyError when it is
  missing; every other JSON value raises TypeError.\<close>

fun py_getitem :: "json \<Rightarrow> string \<Rightarrow> exn + json" where
  "py_getitem (JDict kvs) k =
     (case map_of kvs k of None \<Rightarrow> Inl (KeyError k) | Some v \<Rightarrow> Inr v)"
| "py_getitem (JStr v) k = Inl (TypeError ''string indices must be integers'')"
| "py_getitem (JList vs) k = Inl (TypeError ''list indices must be integers or slices'')"
| "py_getitem v k = Inl (TypeError ''object is not subscriptable'')"

definition is_substring :: "string \<Rightarrow> string \<Rightarrow> bool" where
  "is_substring k v = list_ex (\<lambda>i. take (length k) (drop i v) = k) [0..<Suc (length v)]"

text \<open>\<^verbatim>\<open>k in x\<close> with a string \<open>k\<close>.\<close>

fun py_contains :: "string \<Rightarrow> json \<Rightarrow> exn + bool" where
  "py_contains k (JDict kvs) = Inr (map_of kvs k \<noteq> None)"
| "py_contains k (JList vs) = Inr (JStr k \<in> set vs)"
| "py_contains k (JStr v) = Inr (is_substring k v)"
| "py_contains k v = Inl (TypeError ''argument is not iterable'')"

fun json_str :: "json \<Rightarrow> string option" where
  "json_str (JStr v) = Some v"
| "json_str v = None"

text \<open>\<^verbatim>\<open>os.path.join(a, *p)\<close> where the components come from the manifest: anything but a
  string raises TypeError.\<close>

definition os_path_join :: "env \<Rightarrow> string \<Rightarrow> json list \<Rightarrow> exn + string" where
  "os_path_join e a p =
     (if list_all (\<lambda>b. json_str b \<noteq> None) p
      then Inr (path_join e a (map (\<lambda>b. the (json_str b)) p))
      else Inl (TypeError ''expected str, bytes or os.PathLike object''))"

definition startswith :: "string \<Rightarrow> string \<Rightarrow> bool" where
  "startswith v pre = (take (length pre) v = pre)"

subsection \<open>Manifest loader\<close>

text \<open>\<^verbatim>\<open>__file__\<close> of an imported module is an absolute path, and so is what
  \<^verbatim>\<open>dirname\<close> and \<^verbatim>\<open>join\<close> make of it: on these \<^verbatim>\<open>os.path.abspath\<close> does not consult the
  working directory and returns.\<close>

definition get_cupy_install_path :: "env \<Rightarrow> string" where
  "get_cupy_install_path e =
     path_abspath e (path_join e (path_dirname e (module_file e)) [''..''])"

definition get_cupy_cuda_lib_path :: "env \<Rightarrow> exn + string" where
  "get_cupy_cuda_lib_path e =
     (case environ e ''CUPY_CUDA_LIB_PATH'' of
        None \<Rightarrow> Inr (path_expanduser e ''~/.cupy/cuda_lib'')
      | Some cupy_cuda_lib_path \<Rightarrow> os_path_abspath e cupy_cuda_lib_path)"

definition config_path :: "env \<Rightarrow> string" where
  "config_path e = path_join e (get_cupy_install_path e) [''cupy'', ''_wheel.json'']"

definition get_preload_config :: "env \<Rightarrow> state \<Rightarrow> (exn + json) \<times> state" where
  "get_preload_config e s =
     (if u_preload_config s = JNull
      then
        (let (ex, s1) = os_path_exists e (config_path e) s
         in if \<not> ex then (Inr JNull, s1)
            else
              (let (r, s2) = json_load e (config_path e) s1
               in (case r of
                     Inl x \<Rightarrow> (Inl x, s2)
                   | Inr config \<Rightarrow> (Inr config, s2\<lparr>u_preload_config := config\<rparr>))))
      else (Inr (u_preload_config s), s))"

subsection \<open>Library preloader\<close>

definition lib64dir :: "env \<Rightarrow> string" where
  "lib64dir e = (if startswith (sys_platform e) ''win32'' then ''bin'' else ''lib64'')"

text \<open>The qualified-path branch of the loop body, from \<^verbatim>\<open>if os.path.exists(libpath)\<close>
  on.\<close>

text \<open>\<^verbatim>\<open>'CuPy failed to preload library ({}): {} ({})'.format(libpath,
  type(e).__name__, str(e))\<close>: the three values are strings, so the text is their
  concatenation with the literal parts.\<close>

definition failure_text :: "string \<Rightarrow> exn \<Rightarrow> string" where
  "failure_text libpath x =
     ''CuPy failed to preload library ('' @ libpath @ ''): '' @ exn_name x @
     '' ('' @ exn_str x @ '')''"

text \<open>The \<^verbatim>\<open>except\<close> clause of the qualified-path load calls \<^verbatim>\<open>warnings.warn\<close>
  outside any \<^verbatim>\<open>try\<close>: what that call raises leaves the loop and the function.\<close>

definition load_libpath :: "env \<Rightarrow> string \<Rightarrow> string \<Rightarrow> state \<Rightarrow> (exn + unit) \<times> state" where
  "load_libpath e lib libpath s =
     (let s1 = u_log (Format ''Trying to load {}'' [JStr libpath]) s;
          (r, s2) = ctypes_CDLL e (JStr libpath) s1
      in (case r of
            Inr h \<Rightarrow>
              (Inr (),
               u_log (Text ''Loaded'')
                 (s2\<lparr>u_preload_libs :=
                       AList.update lib (Some (JStr libpath, h)) (u_preload_libs s2)\<rparr>))
          | Inl x \<Rightarrow>
              (let msg = failure_text libpath x
               in warnings_warn e msg (u_log (Text msg) s2))))"

text \<open>The fallback branch: load by the bare file name.\<close>

definition load_filename :: "env \<Rightarrow> string \<Rightarrow> string \<Rightarrow> json \<Rightarrow> state \<Rightarrow> state" where
  "load_filename e lib libpath filename s =
     (let s1 = u_log (Format ''File {} could not be found'' [JStr libpath]) s;
          s2 = u_log (Format ''Trying to load {}'' [filename]) s1;
          (r, s3) = ctypes_CDLL e filename s2
      in (case r of
            Inr h \<Rightarrow>
              u_log (Text ''Loaded'')
                (s3\<lparr>u_preload_libs :=
                      AList.update lib (Some (filename, h)) (u_preload_libs s3)\<rparr>)
          | Inl x \<Rightarrow> u_log (Format ''Library {} could not be preloaded'' [JStr lib]) s3))"

text \<open>One iteration of \<^verbatim>\<open>for lib in _preload_libs.keys()\<close>.\<close>

definition preload_lib :: "env \<Rightarrow> json \<Rightarrow> string \<Rightarrow> string \<Rightarrow> state \<Rightarrow> (exn + unit) \<times> state" where
  "preload_lib e config cupy_cuda_lib_path lib s =
     (case py_contains lib config of
        Inl x \<Rightarrow> (Inl x, s)
      | Inr present \<Rightarrow>
          if \<not> present then (Inr (), u_log (Format ''Not preloading {}'' [JStr lib]) s)
          else
            (case py_getitem config lib of
               Inl x \<Rightarrow> (Inl x, s)
             | Inr entry \<Rightarrow>
            (case py_getitem entry ''version'' of
               Inl x \<Rightarrow> (Inl x, s)
             | Inr version \<Rightarrow>
            (case py_getitem entry ''filename'' of
               Inl x \<Rightarrow> (Inl x, s)
             | Inr filename \<Rightarrow>
            (let s1 = u_log (Format ''Looking for {} version {} ({})''
                               [JStr lib, version, filename]) s
             in (case py_getitem config ''cuda'' of
                   Inl x \<Rightarrow> (Inl x, s1)
                 | Inr cuda \<Rightarrow>
                (case os_path_join e cupy_cuda_lib_path
                        [cuda, JStr lib, version, JStr (lib64dir e)] of
                   Inl x \<Rightarrow> (Inl x, s1)
                 | Inr libpath \<Rightarrow>
                     (let (ex, s2) = os_path_exists e libpath s1
                      in if ex then load_libpath e lib libpath s2
                         else (Inr (), load_filename e lib libpath filename s2)))))))))"

fun preload_loop :: "env \<Rightarrow> json \<Rightarrow> string \<Rightarrow> string list \<Rightarrow> state \<Rightarrow> (exn + unit) \<times> state" where
  "preload_loop e config cupy_cuda_lib_path [] s = (Inr (), s)"
| "preload_loop e config cupy_cuda_lib_path (lib # libs) s =
     (case preload_lib e config cupy_cuda_lib_path lib s of
        (Inl x, s1) \<Rightarrow> (Inl x, s1)
      | (Inr u, s1) \<Rightarrow> preload_loop e config cupy_cuda_lib_path libs s1)"

definition u_preload_libraries :: "env \<Rightarrow> state \<Rightarrow> (exn + unit) \<times> state" where
  "u_preload_libraries e s =
     (let (r, s1) = get_preload_config e s
      in (case r of
            Inl x \<Rightarrow> (Inl x, s1)
          | Inr config \<Rightarrow>
              if config = JNull
              then (Inr (), u_log (Text ''Skip preloading as this is not a wheel installation'') s1)
              else
                (case py_getitem config ''cuda'' of
                   Inl x \<Rightarrow> (Inl x, s1)
                 | Inr cuda_version \<Rightarrow>
                     (let s2 = u_log (Format ''CuPy wheel package built for CUDA {}''
                                        [cuda_version]) s1
                      in (case get_cupy_cuda_lib_path e of
                            Inl x \<Rightarrow> (Inl x, s2)
                          | Inr cupy_cuda_lib_path \<Rightarrow>
                              (let s3 = u_log (Format ''CuPy CUDA library directory: {}''
                                                 [JStr cupy_cuda_lib_path]) s2
                               in preload_loop e config cupy_cuda_lib_path
                                    (map fst (u_preload_libs s3)) s3))))))"

subsection \<open>The resolution orders, as the specification words them\<close>

text \<open>First matching rule wins.\<close>

fun first_match :: "'a option list \<Rightarrow> 'a option" where
  "first_match [] = None"
| "first_match (Some x # rules) = Some x"
| "first_match (None # rules) = first_match rules"

text \<open>Toolkit path: (1) the environment override, accepted only if the path exists on
  disk; (2) the grandparent directory of the compiler executable found by the standard
  executable search; (3) the fixed well-known default directory, if present.\<close>

definition resolveToolkitPath :: "env \<Rightarrow> string option" where
  "resolveToolkitPath e =
     first_match
       [case environ e ''CUDA_PATH'' of
          None \<Rightarrow> None
        | Some p \<Rightarrow> if file_exists e p then Some p else None,
        case which e ''nvcc'' None of
          None \<Rightarrow> None
        | Some nvcc \<Rightarrow> Some (path_dirname e (path_dirname e nvcc)),
        if file_exists e ''/usr/local/cuda'' then Some ''/usr/local/cuda'' else None]"

text \<open>Compiler path: (1) the environment override, with no existence check; (2) the
  compiler executable searched under \<open><toolkitPath>/bin\<close>.\<close>

definition resolveCompilerPath :: "env \<Rightarrow> string option \<Rightarrow> string option" where
  "resolveCompilerPath e toolkit =
     first_match
       [environ e ''NVCC'',
        case toolkit of
          None \<Rightarrow> None
        | Some c \<Rightarrow> which e ''nvcc'' (Some (path_join e c [''bin'']))]"

text \<open>Header path: (1) the bundled copy inside the package's installation tree, if that
  directory exists; (2) the header directory beneath the resolved toolkit path;
  (3) NotFound.\<close>

definition bundled_cub_dir :: "env \<Rightarrow> string" where
  "bundled_cub_dir e =
     path_join e (path_dirname e (path_abspath e (module_file e))) [''core/include/cupy/cub'']"

definition resolveHeaderPath :: "env \<Rightarrow> string option \<Rightarrow> string option" where
  "resolveHeaderPath e toolkit =
     first_match
       [if is_dir e (bundled_cub_dir e) then Some ''<bundle>'' else None,
        case toolkit of
          None \<Rightarrow> None
        | Some c \<Rightarrow> if is_dir e (path_join e c [''include/cub'']) then Some ''<CUDA>'' else None]"

subsection \<open>Concrete environments\<close>

text \<open>A Linux host with nothing installed: no environment variable set, an empty file
  system, the package under \<open>/opt/site-packages\<close>, the home and working directory
  \<open>/home/user\<close>, the default warnings filter.\<close>

definition env_posix :: env where
  "env_posix =
     \<lparr> environ = Map.empty,
       fs_exists = (\<lambda>p. False),
       fs_isdir = (\<lambda>p. False),
       which = (\<lambda>cmd path. None),
       path_join = posix_join,
       path_dirname = posix_dirname,
       path_abspath = posix_abspath ''/home/user'',
       path_expanduser = posix_expanduser ''/home/user'',
       sys_platform = ''linux'',
       module_file = ''/opt/site-packages/cupy/_environment.py'',
       json_load_open = (\<lambda>p. Inl (Raised ''FileNotFoundError'' p)),
       CDLL = (\<lambda>n. Inl (Raised ''OSError'' ''cannot open shared object file'')),
       path_isabs = posix_isabs,
       getcwd = Inr ''/home/user'',
       warnings_error = False \<rparr>"

text \<open>The toolkit installed under \<open>/usr/local/cuda\<close>, its \<open>bin\<close> on the search path.\<close>

definition env_toolkit :: env where
  "env_toolkit =
     env_posix
       \<lparr> fs_exists := (\<lambda>p. p \<in> {''/usr/local/cuda'', ''/usr/local/cuda/bin/nvcc''}),
         fs_isdir := (\<lambda>p. p \<in> {''/usr/local/cuda'', ''/usr/local/cuda/include/cub''}),
         which := (\<lambda>cmd path.
            if cmd = ''nvcc'' \<and> path \<in> {None, Some ''/usr/local/cuda/bin''}
            then Some ''/usr/local/cuda/bin/nvcc'' else None) \<rparr>"

text \<open>The same host with \<^verbatim>\<open>NVCC=/opt/bin/mynvcc\<close> exported.\<close>

definition env_nvcc_override :: env where
  "env_nvcc_override = env_toolkit \<lparr> environ := [''NVCC'' \<mapsto> ''/opt/bin/mynvcc''] \<rparr>"

text \<open>\<^verbatim>\<open>PATH=bin\<close>, a relative entry, with an executable \<open>bin/nvcc\<close> below the working
  directory: \<^verbatim>\<open>shutil.which('nvcc')\<close> joins the entry and the command name.\<close>

definition env_relative_path :: env where
  "env_relative_path =
     env_posix
       \<lparr> fs_exists := (\<lambda>p. p = ''bin/nvcc''),
         which := (\<lambda>cmd path.
            if cmd = ''nvcc'' \<and> path \<in> {None, Some ''bin''} then Some ''bin/nvcc''
            else None) \<rparr>"

text \<open>A wheel built for CUDA 11.0 and cuDNN 8.0.0.\<close>

definition manifest_cudnn :: json where
  "manifest_cudnn =
     JDict [(''cuda'', JStr ''11.0''),
            (''cudnn'', JDict [(''version'', JStr ''8.0.0''),
                               (''filename'', JStr ''libcudnn.so.8.0.0'')])]"

text \<open>A wheel installation whose manifest is \<open>manifest_cudnn\<close>, with no library in
  the per-user directory and none on the loader's search path.\<close>

definition env_wheel :: env where
  "env_wheel =
     env_posix
       \<lparr> fs_exists := (\<lambda>p. p = ''/opt/site-packages/cupy/_wheel.json''),
         json_load_open := (\<lambda>p.
            if p = ''/opt/site-packages/cupy/_wheel.json'' then Inr manifest_cudnn
            else Inl (Raised ''FileNotFoundError'' p)) \<rparr>"

text \<open>The same installation with the library file at the fully qualified path
  \<open>/home/user/.cupy/cuda_lib/11.0/cudnn/8.0.0/lib64/libcudnn.so.8.0.0\<close>. The loader
  opens that file; asked to open anything else, a directory included, it raises.\<close>

definition env_wheel_lib :: env where
  "env_wheel_lib =
     env_wheel
       \<lparr> fs_exists := (\<lambda>p. p \<in>
            {''/opt/site-packages/cupy/_wheel.json'',
             ''/home/user/.cupy/cuda_lib/11.0/cudnn/8.0.0/lib64'',
             ''/home/user/.cupy/cuda_lib/11.0/cudnn/8.0.0/lib64/libcudnn.so.8.0.0''}),
         CDLL := (\<lambda>n.
            if n = JStr ''/home/user/.cupy/cuda_lib/11.0/cudnn/8.0.0/lib64/libcudnn.so.8.0.0''
            then Inr 1
            else Inl (Raised ''OSError'' ''cannot open shared object file'')) \<rparr>"

text \<open>The installation with the library file, run under \<^verbatim>\<open>python -W error\<close>.\<close>

definition env_wheel_lib_strict :: env where
  "env_wheel_lib_strict = env_wheel_lib \<lparr> warnings_error := True \<rparr>"

text \<open>The wheel installation with \<^verbatim>\<open>CUPY_CUDA_LIB_PATH=cuda_lib\<close>, a relative path, in
  a process whose working directory has been removed.\<close>

definition env_wheel_no_cwd :: env where
  "env_wheel_no_cwd =
     env_wheel
       \<lparr> environ := [''CUPY_CUDA_LIB_PATH'' \<mapsto> ''cuda_lib''],
         getcwd := Inl (Raised ''FileNotFoundError'' ''[Errno 2] No such file or directory'') \<rparr>"

text \<open>A manifest whose library entry lacks the file name.\<close>

definition manifest_no_filename :: json where
  "manifest_no_filename =
     JDict [(''cuda'', JStr ''11.0''), (''cudnn'', JDict [(''version'', JStr ''8.0.0'')])]"

definition env_wheel_corrupt :: env where
  "env_wheel_corrupt =
     env_wheel
       \<lparr> json_load_open := (\<lambda>p.
            if p = ''/opt/site-packages/cupy/_wheel.json'' then Inr manifest_no_filename
            else Inl (Raised ''FileNotFoundError'' p)) \<rparr>"

text \<open>A manifest whose \<open>cudnn\<close> entry is complete and whose \<open>nccl\<close> entry lacks the file
  name.\<close>

definition manifest_nccl_no_filename :: json where
  "manifest_nccl_no_filename =
     JDict [(''cuda'', JStr ''11.0''),
            (''cudnn'', JDict [(''version'', JStr ''8.0.0''),
                               (''filename'', JStr ''libcudnn.so.8.0.0'')]),
            (''nccl'', JDict [(''version'', JStr ''2.7.8'')])]"

definition env_wheel_nccl_corrupt :: env where
  "env_wheel_nccl_corrupt =
     env_wheel
       \<lparr> json_load_open := (\<lambda>p.
            if p = ''/opt/site-packages/cupy/_wheel.json'' then Inr manifest_nccl_no_filename
            else Inl (Raised ''FileNotFoundError'' p)) \<rparr>"

text \<open>The library table extended by a second entry, as the commented lines of
  \<^verbatim>\<open>_preload_libs\<close> foresee, and a manifest that configures both libraries; only
  \<open>libnccl.so.2.7.8\<close> is on the loader's search path.\<close>

definition state_two_libs :: state where
  "state_two_libs = init_state \<lparr> u_preload_libs := [(''cudnn'', None), (''nccl'', None)] \<rparr>"

definition manifest_two_libs :: json where
  "manifest_two_libs =
     JDict [(''cuda'', JStr ''11.0''),
            (''cudnn'', JDict [(''version'', JStr ''8.0.0''),
                               (''filename'', JStr ''libcudnn.so.8.0.0'')]),
            (''nccl'', JDict [(''version'', JStr ''2.7.8''),
                              (''filename'', JStr ''libnccl.so.2.7.8'')])]"

definition env_two_libs :: env where
  "env_two_libs =
     env_wheel
       \<lparr> json_load_open := (\<lambda>p.
            if p = ''/opt/site-packages/cupy/_wheel.json'' then Inr manifest_two_libs
            else Inl (Raised ''FileNotFoundError'' p)),
         CDLL := (\<lambda>n.
            if n = JStr ''libnccl.so.2.7.8'' then Inr 2
            else Inl (Raised ''OSError'' ''cannot open shared object file'')) \<rparr>"

text \<open>The same, run under \<^verbatim>\<open>python -W error\<close>.\<close>

definition env_two_libs_strict :: env where
  "env_two_libs_strict = env_two_libs \<lparr> warnings_error := True \<rparr>"

subsection \<open>Well-formed manifests and the outcome of one load\<close>

text \<open>A library entry of the required shape: a version string and a file name string.\<close>

definition wf_entry :: "json \<Rightarrow> bool" where
  "wf_entry entry =
     (case entry of
        JDict attrs \<Rightarrow>
          (case (map_of attrs ''version'', map_of attrs ''filename'') of
             (Some (JStr version), Some (JStr filename)) \<Rightarrow> True
           | _ \<Rightarrow> False)
      | _ \<Rightarrow> False)"

text \<open>A manifest of the required shape for the library names \<open>libs\<close>: an object with a
  toolkit version string, in which every name of \<open>libs\<close> that it configures has an entry
  of the required shape.\<close>

definition wf_manifest :: "string list \<Rightarrow> json \<Rightarrow> bool" where
  "wf_manifest libs config =
     (case config of
        JDict kvs \<Rightarrow>
          (case map_of kvs ''cuda'' of
             Some (JStr cuda) \<Rightarrow>
               list_all (\<lambda>lib. case map_of kvs lib of None \<Rightarrow> True
                                | Some entry \<Rightarrow> wf_entry entry) libs
           | _ \<Rightarrow> False)
      | _ \<Rightarrow> False)"

text \<open>What the two load strategies yield for one library of a manifest, with the base
  directory \<open>base\<close>: the handle and its source when the load that is attempted succeeds,
  \<open>None\<close> when the library is not configured or the load raises. The qualified path is
  loaded when it exists, the bare file name only when it does not.\<close>

definition load_attempt :: "env \<Rightarrow> string \<Rightarrow> json \<Rightarrow> string \<Rightarrow> (json \<times> handle) option" where
  "load_attempt e base config lib =
     (case (py_getitem config ''cuda'', py_getitem config lib) of
        (Inr cuda, Inr entry) \<Rightarrow>
          (case (py_getitem entry ''version'', py_getitem entry ''filename'') of
             (Inr version, Inr filename) \<Rightarrow>
               (case os_path_join e base [cuda, JStr lib, version, JStr (lib64dir e)] of
                  Inr libpath \<Rightarrow>
                    if file_exists e libpath
                    then (case CDLL e (JStr libpath) of
                            Inr h \<Rightarrow> Some (JStr libpath, h)
                          | Inl x \<Rightarrow> None)
                    else (case CDLL e filename of
                            Inr h \<Rightarrow> Some (filename, h)
                          | Inl x \<Rightarrow> None)
                | Inl x \<Rightarrow> None)
           | _ \<Rightarrow> None)
      | _ \<Rightarrow> None)"

text \<open>The table entry of a library after the loop: the result of its load when that
  succeeded, its previous value otherwise.\<close>

definition outcome ::
  "env \<Rightarrow> string \<Rightarrow> json \<Rightarrow> string \<Rightarrow> (json \<times> handle) option \<Rightarrow> (json \<times> handle) option" where
  "outcome e base config lib old =
     (case load_attempt e base config lib of None \<Rightarrow> old | Some v \<Rightarrow> Some v)"

text \<open>The library is configured, its qualified path exists, and loading that path
  raises: the case in which \<^verbatim>\<open>warnings.warn\<close> is called.\<close>

definition qualified_load_raises :: "env \<Rightarrow> string \<Rightarrow> json \<Rightarrow> string \<Rightarrow> bool" where
  "qualified_load_raises e base config lib =
     (case (py_getitem config ''cuda'', py_getitem config lib) of
        (Inr cuda, Inr entry) \<Rightarrow>
          (case py_getitem entry ''version'' of
             Inr version \<Rightarrow>
               (case os_path_join e base [cuda, JStr lib, version, JStr (lib64dir e)] of
                  Inr libpath \<Rightarrow>
                    file_exists e libpath \<and>
                    (case CDLL e (JStr libpath) of Inl x \<Rightarrow> True | Inr h \<Rightarrow> False)
                | Inl x \<Rightarrow> False)
           | Inl x \<Rightarrow> False)
      | _ \<Rightarrow> False)"

section \<open>Verified properties\<close>

subsection \<open>Auxiliary facts\<close>

lemma first_match_single [simp]: "first_match [x] = x"
  by (cases x) simp_all

lemma get_cuda_path_frame [simp]:
  "u_cub_path (snd (get_cuda_path e s)) = u_cub_path s"
  "u_nvcc_path (snd (get_cuda_path e s)) = u_nvcc_path s"
  by (simp_all add: get_cuda_path_def u_get_cuda_path_def os_path_exists_def
      shutil_which_def Let_def split: option.splits prod.splits)

lemma get_cuda_path_uninit:
  "u_cuda_path s = Some '''' \<Longrightarrow> u_cuda_path (snd (get_cuda_path e s)) = resolveToolkitPath e"
  by (simp add: get_cuda_path_def u_get_cuda_path_def resolveToolkitPath_def environ_get_def
      os_path_exists_def file_exists_def shutil_which_def split: option.splits)

lemma get_cuda_path_cached:
  "u_cuda_path s \<noteq> Some '''' \<Longrightarrow> get_cuda_path e s = (u_cuda_path s, s)"
  by (simp add: get_cuda_path_def)

subsection \<open>Path resolvers\<close>

text \<open>
  C5. \<^verbatim>\<open>_get_cuda_path\<close> applies the three rules of the toolkit path in order, the first
  matching rule winning: the \<^verbatim>\<open>CUDA_PATH\<close> override when it names an existing path,
  else the grandparent directory of the \<^verbatim>\<open>nvcc\<close> found by the executable search, else
  \<open>/usr/local/cuda\<close> when it exists, else \<^verbatim>\<open>None\<close>. The result is a value, never an
  exception, and it is what the first call of \<^verbatim>\<open>get_cuda_path\<close> returns.
\<close>

theorem toolkit_path_resolution_order:
  "fst (u_get_cuda_path e s) = resolveToolkitPath e \<and>
   fst (get_cuda_path e (s\<lparr>u_cuda_path := Some ''''\<rparr>)) = resolveToolkitPath e"
  by (simp add: get_cuda_path_def u_get_cuda_path_def resolveToolkitPath_def environ_get_def
      os_path_exists_def file_exists_def shutil_which_def split: option.splits)

text \<open>
  C7. \<^verbatim>\<open>_get_cub_path\<close> returns the marker \<open><bundle>\<close> when the directory
  \<open>core/include/cupy/cub\<close> beside the module exists, else the marker \<open><CUDA>\<close> when
  \<open>include/cub\<close> exists beneath the toolkit path that \<^verbatim>\<open>get_cuda_path\<close> resolves, else
  \<^verbatim>\<open>None\<close>.
\<close>

theorem header_path_resolution_order:
  "fst (u_get_cub_path e s) = resolveHeaderPath e (fst (get_cuda_path e s))"
  by (simp add: u_get_cub_path_def resolveHeaderPath_def os_path_isdir_def
      bundled_cub_dir_def split: option.splits prod.splits)

text \<open>
  C8. \<^verbatim>\<open>_get_nvcc_path\<close> returns the \<^verbatim>\<open>NVCC\<close> override whenever it is set, unchecked;
  otherwise it searches \<^verbatim>\<open>nvcc\<close> under \<open><toolkit path>/bin\<close>, where the toolkit path is
  what \<^verbatim>\<open>get_cuda_path\<close> returns, and returns \<^verbatim>\<open>None\<close> when the toolkit path is
  \<^verbatim>\<open>None\<close>. With no override and an uninitialized toolkit cache the call resolves the
  toolkit path and caches it; in every other case the toolkit cache is left as it was.
\<close>

theorem compiler_path_resolution_order:
  "fst (u_get_nvcc_path e s) = resolveCompilerPath e (fst (get_cuda_path e s)) \<and>
   u_cuda_path (snd (u_get_nvcc_path e s)) =
     (if environ e ''NVCC'' = None \<and> u_cuda_path s = Some '''' then resolveToolkitPath e
      else u_cuda_path s)"
proof (cases "environ e ''NVCC''")
  case None
  have res: "fst (u_get_nvcc_path e s) = resolveCompilerPath e (fst (get_cuda_path e s))"
    using None
    by (simp add: u_get_nvcc_path_def resolveCompilerPath_def shutil_which_def
        split: option.splits prod.splits)
  have cache: "u_cuda_path (snd (u_get_nvcc_path e s)) = u_cuda_path (snd (get_cuda_path e s))"
    using None
    by (simp add: u_get_nvcc_path_def shutil_which_def split: option.splits prod.splits)
  show ?thesis
  proof (cases "u_cuda_path s = Some ''''")
    case True
    with None res cache show ?thesis by (simp add: get_cuda_path_uninit)
  next
    case False
    with None res cache show ?thesis by (simp add: get_cuda_path_cached)
  qed
next
  case (Some v)
  then show ?thesis
    by (simp add: u_get_nvcc_path_def resolveCompilerPath_def)
qed

text \<open>
  C10. With \<^verbatim>\<open>NVCC\<close> set, \<^verbatim>\<open>_get_nvcc_path\<close> returns the override and leaves every
  global as it was; \<^verbatim>\<open>get_nvcc_path\<close> returns the override when its own cache is
  uninitialized (its cached value otherwise), leaves the toolkit path cache unchanged,
  also when that cache is uninitialized, and makes no file system call.
\<close>

theorem compiler_override_frame:
  assumes "environ e ''NVCC'' = Some v"
  shows "u_get_nvcc_path e s = (Some v, s) \<and>
         fst (get_nvcc_path e s) = (if u_nvcc_path s = Some '''' then Some v else u_nvcc_path s) \<and>
         u_cuda_path (snd (get_nvcc_path e s)) = u_cuda_path s \<and>
         fs_probes (snd (get_nvcc_path e s)) = fs_probes s"
  using assms by (simp add: get_nvcc_path_def u_get_nvcc_path_def)

theorem compiler_override_frame_witness:
  "environ env_nvcc_override ''NVCC'' = Some ''/opt/bin/mynvcc'' \<and>
   u_get_nvcc_path env_nvcc_override init_state = (Some ''/opt/bin/mynvcc'', init_state) \<and>
   fst (get_nvcc_path env_nvcc_override init_state) = Some ''/opt/bin/mynvcc'' \<and>
   u_cuda_path (snd (get_nvcc_path env_nvcc_override init_state)) = Some '''' \<and>
   fs_probes (snd (get_nvcc_path env_nvcc_override init_state)) = []"
proof -
  have h: "environ env_nvcc_override ''NVCC'' = Some ''/opt/bin/mynvcc''"
    by (simp add: env_nvcc_override_def)
  show ?thesis
    using h compiler_override_frame [OF h, of init_state]
    by (simp add: init_state_def)
qed

subsection \<open>Memoization\<close>

text \<open>The header resolver never returns the empty string, so its cache is filled by the
  first call and every later call, in any environment, returns the cached value and
  leaves the globals, the probe trace included, untouched.\<close>

lemma u_get_cub_path_nonempty: "fst (u_get_cub_path e s) \<noteq> Some ''''"
  by (simp add: u_get_cub_path_def os_path_isdir_def Let_def
      split: option.splits prod.splits)

lemma get_cub_path_memo:
  "get_cub_path e' (snd (get_cub_path e s)) = (fst (get_cub_path e s), snd (get_cub_path e s))"
proof (cases "u_cub_path s = Some ''''")
  case True
  obtain r s1 where u: "u_get_cub_path e s = (r, s1)"
    by (cases "u_get_cub_path e s")
  with u_get_cub_path_nonempty [of e s] have "r \<noteq> Some ''''" by simp
  with True u show ?thesis by (simp add: get_cub_path_def)
next
  case False
  then show ?thesis by (simp add: get_cub_path_def)
qed

text \<open>The toolkit and compiler resolvers do the same whenever the first result is not the
  empty string, \<^verbatim>\<open>None\<close> included.\<close>

lemma get_cuda_path_memo:
  "fst (get_cuda_path e s) \<noteq> Some '''' \<Longrightarrow>
   get_cuda_path e' (snd (get_cuda_path e s)) = (fst (get_cuda_path e s), snd (get_cuda_path e s))"
  by (simp add: get_cuda_path_def split: option.splits prod.splits if_splits)

lemma get_nvcc_path_memo:
  "fst (get_nvcc_path e s) \<noteq> Some '''' \<Longrightarrow>
   get_nvcc_path e' (snd (get_nvcc_path e s)) = (fst (get_nvcc_path e s), snd (get_nvcc_path e s))"
  by (simp add: get_nvcc_path_def split: option.splits prod.splits if_splits)

text \<open>
  C4. The claim that every resolver stops probing after its first call fails for the
  toolkit resolver where the first result is the empty string, the value that marks the
  cache as uninitialized. With \<^verbatim>\<open>PATH=bin\<close> and an executable \<open>bin/nvcc\<close>,
  \<^verbatim>\<open>shutil.which\<close> returns \<open>bin/nvcc\<close>, whose grandparent directory is the empty
  string: the first call probes twice and returns it, and the second call runs the same
  two probes again.
\<close>

theorem toolkit_path_reprobed:
  "fst (get_cuda_path env_relative_path init_state) = Some '''' \<and>
   fs_probes (snd (get_cuda_path env_relative_path init_state)) =
     [Exists '''', Which ''nvcc'' None] \<and>
   fs_probes (snd (get_cuda_path env_relative_path
                    (snd (get_cuda_path env_relative_path init_state)))) =
     [Exists '''', Which ''nvcc'' None, Exists '''', Which ''nvcc'' None]"
  by (simp add: get_cuda_path_def u_get_cuda_path_def environ_get_def os_path_exists_def
      file_exists_def shutil_which_def env_relative_path_def env_posix_def init_state_def
      posix_dirname_def rstrip_def)

subsection \<open>Manifest loader\<close>

lemmas os_defs = os_path_exists_def os_path_isdir_def shutil_which_def json_load_def
  ctypes_CDLL_def file_exists_def is_dir_def environ_get_def

lemmas preload_defs = u_preload_libraries_def get_preload_config_def preload_lib_def
  load_libpath_def load_filename_def u_log_def warnings_warn_def os_path_join_def
  lib64dir_def startswith_def get_cupy_cuda_lib_path_def get_cupy_install_path_def
  config_path_def os_path_abspath_def failure_text_def

lemmas posix_defs = posix_dirname_def rstrip_def posix_normpath_def posix_abspath_def
  posix_isabs_def posix_expanduser_def

lemmas env_defs = env_posix_def env_wheel_def env_wheel_lib_def env_wheel_lib_strict_def
  env_wheel_no_cwd_def env_wheel_corrupt_def env_wheel_nccl_corrupt_def env_two_libs_def
  env_two_libs_strict_def
  manifest_cudnn_def manifest_no_filename_def manifest_nccl_no_filename_def
  manifest_two_libs_def init_state_def state_two_libs_def posix_defs

lemma get_preload_config_frame [simp]:
  "u_preload_libs (snd (get_preload_config e s)) = u_preload_libs s"
  "cdll_calls (snd (get_preload_config e s)) = cdll_calls s"
  "warnings (snd (get_preload_config e s)) = warnings s"
  by (simp_all add: get_preload_config_def os_path_exists_def json_load_def
      split: sum.splits prod.splits)

lemma u_log_frame [simp]:
  "u_preload_libs (u_log m s) = u_preload_libs s"
  "cdll_calls (u_log m s) = cdll_calls s"
  "warnings (u_log m s) = warnings s"
  "u_preload_logs (u_log m s) = u_preload_logs s @ [m]"
  by (simp_all add: u_log_def)

text \<open>
  C9. While no manifest is cached: when the manifest file does not exist,
  \<^verbatim>\<open>get_preload_config\<close> probes for it, returns \<^verbatim>\<open>None\<close> and changes no global (the
  cache stays empty, so the next call probes again); a file that exists at a later call
  is then read and returned. A manifest that was read, and is not JSON \<open>null\<close>, is
  cached: every later call, in any environment, returns it and touches nothing.
\<close>

theorem manifest_cache:
  assumes uninit: "u_preload_config s = JNull"
  shows "(\<not> file_exists e (config_path e) \<longrightarrow>
            get_preload_config e s =
              (Inr JNull, s\<lparr>fs_probes := fs_probes s @ [Exists (config_path e)]\<rparr>)) \<and>
         (\<not> file_exists e (config_path e) \<and> file_exists e' (config_path e') \<and>
          json_load_open e' (config_path e') = Inr m \<longrightarrow>
            fst (get_preload_config e' (snd (get_preload_config e s))) = Inr m) \<and>
         (file_exists e (config_path e) \<and> json_load_open e (config_path e) = Inr m \<and>
          m \<noteq> JNull \<longrightarrow>
            fst (get_preload_config e s) = Inr m \<and>
            get_preload_config e' (snd (get_preload_config e s)) =
              (Inr m, snd (get_preload_config e s)))"
  using uninit
  by (simp add: get_preload_config_def os_path_exists_def json_load_def)

theorem manifest_cache_witness:
  "u_preload_config init_state = JNull \<and>
   \<not> file_exists env_posix (config_path env_posix) \<and>
   get_preload_config env_posix init_state =
     (Inr JNull, init_state\<lparr>fs_probes := [Exists ''/opt/site-packages/cupy/_wheel.json'']\<rparr>) \<and>
   file_exists env_wheel (config_path env_wheel) \<and>
   json_load_open env_wheel (config_path env_wheel) = Inr manifest_cudnn \<and>
   manifest_cudnn \<noteq> JNull \<and>
   fst (get_preload_config env_wheel (snd (get_preload_config env_posix init_state))) =
     Inr manifest_cudnn \<and>
   get_preload_config env_posix (snd (get_preload_config env_wheel init_state)) =
     (Inr manifest_cudnn, snd (get_preload_config env_wheel init_state))"
proof -
  have uninit: "u_preload_config init_state = JNull" by (simp add: init_state_def)
  have p1: "config_path env_posix = ''/opt/site-packages/cupy/_wheel.json''"
    and p2: "config_path env_wheel = ''/opt/site-packages/cupy/_wheel.json''"
    by (simp_all add: config_path_def get_cupy_install_path_def env_defs)
  have absent: "\<not> file_exists env_posix (config_path env_posix)"
    unfolding p1 by (simp add: file_exists_def env_defs)
  have present: "file_exists env_wheel (config_path env_wheel)"
    unfolding p2 by (simp add: file_exists_def env_defs)
  have content: "json_load_open env_wheel (config_path env_wheel) = Inr manifest_cudnn"
    unfolding p2 by (simp add: env_wheel_def)
  have nonnull: "manifest_cudnn \<noteq> JNull" by (simp add: manifest_cudnn_def)
  have probes: "fs_probes init_state = []" by (simp add: init_state_def)
  note first_absent = manifest_cache [OF uninit, of env_posix env_wheel manifest_cudnn]
  note first_present = manifest_cache [OF uninit, of env_wheel env_posix manifest_cudnn]
  have a: "get_preload_config env_posix init_state =
      (Inr JNull, init_state\<lparr>fs_probes := [Exists ''/opt/site-packages/cupy/_wheel.json'']\<rparr>)"
    using first_absent absent by (simp add: p1 probes)
  have b: "fst (get_preload_config env_wheel (snd (get_preload_config env_posix init_state))) =
      Inr manifest_cudnn"
    using first_absent absent present content by blast
  have c: "get_preload_config env_posix (snd (get_preload_config env_wheel init_state)) =
      (Inr manifest_cudnn, snd (get_preload_config env_wheel init_state))"
    using first_present present content nonnull by blast
  show ?thesis
    using uninit absent a present content nonnull b c by (intro conjI)
qed

subsection \<open>Library preloader\<close>

text \<open>
  C1. The claim puts the file name at the end of the qualified path; the code joins the
  base directory, the toolkit version, the library name, the library version and the
  platform directory only. With the library file present at
  \<open>/home/user/.cupy/cuda_lib/11.0/cudnn/8.0.0/lib64/libcudnn.so.8.0.0\<close>, the path whose
  existence is checked and that is handed to \<^verbatim>\<open>ctypes.CDLL\<close> is the directory
  \<open>.../lib64\<close>; the load raises and no handle is recorded.
\<close>

theorem qualified_path_omits_filename:
  "cdll_calls (snd (u_preload_libraries env_wheel_lib init_state)) =
     [JStr ''/home/user/.cupy/cuda_lib/11.0/cudnn/8.0.0/lib64''] \<and>
   u_preload_libs (snd (u_preload_libraries env_wheel_lib init_state)) = [(''cudnn'', None)] \<and>
   fs_probes (snd (u_preload_libraries env_wheel_lib init_state)) =
     [Exists ''/opt/site-packages/cupy/_wheel.json'',
      ReadJson ''/opt/site-packages/cupy/_wheel.json'',
      Exists ''/home/user/.cupy/cuda_lib/11.0/cudnn/8.0.0/lib64'']"
  by (simp add: preload_defs os_defs env_defs Let_def)

text \<open>Assigning to a key of the table changes that entry and nothing else.\<close>

lemma update_present:
  "k \<in> set (map fst al) \<Longrightarrow> distinct (map fst al) \<Longrightarrow>
   AList.update k v al = map (\<lambda>(k', old). (k', if k' = k then v else old)) al"
proof (induction al)
  case Nil
  then show ?case by simp
next
  case (Cons a al)
  obtain k0 v0 where a: "a = (k0, v0)" by (cases a)
  show ?case
  proof (cases "k0 = k")
    case True
    with Cons.prems a have "k \<notin> set (map fst al)" by simp
    then have "map (\<lambda>(k', old). (k', if k' = k then v else old)) al = al"
      by (induction al) auto
    with True a show ?thesis by simp
  next
    case False
    with Cons a show ?thesis by simp
  qed
qed

text \<open>The loop body on a library that the manifest does not configure, and on one whose
  entry has the required shape.\<close>

lemma wf_entryE:
  assumes "wf_entry entry"
  obtains attrs version filename where "entry = JDict attrs"
    and "map_of attrs ''version'' = Some (JStr version)"
    and "map_of attrs ''filename'' = Some (JStr filename)"
  using assms unfolding wf_entry_def
  by (cases entry; simp split: option.splits json.splits)

lemma preload_lib_absent:
  "map_of kvs lib = None \<Longrightarrow>
   preload_lib e (JDict kvs) base lib s =
     (Inr (), u_log (Format ''Not preloading {}'' [JStr lib]) s)"
  by (simp add: preload_lib_def)

lemma preload_lib_present:
  assumes "map_of kvs ''cuda'' = Some (JStr cuda)"
      and "map_of kvs lib = Some (JDict attrs)"
      and "map_of attrs ''version'' = Some (JStr version)"
      and "map_of attrs ''filename'' = Some (JStr filename)"
  shows "preload_lib e (JDict kvs) base lib s =
     (let libpath = path_join e base [cuda, lib, version, lib64dir e];
          s1 = u_log (Format ''Looking for {} version {} ({})''
                        [JStr lib, JStr version, JStr filename]) s;
          s2 = s1\<lparr>fs_probes := fs_probes s1 @ [Exists libpath]\<rparr>
      in if file_exists e libpath then load_libpath e lib libpath s2
         else (Inr (), load_filename e lib libpath (JStr filename) s2))"
  using assms by (simp add: preload_lib_def os_path_join_def os_path_exists_def Let_def)

lemma load_attempt_absent:
  "map_of kvs lib = None \<Longrightarrow> load_attempt e base (JDict kvs) lib = None"
  by (simp add: load_attempt_def split: sum.splits)

lemma load_attempt_present:
  assumes "map_of kvs ''cuda'' = Some (JStr cuda)"
      and "map_of kvs lib = Some (JDict attrs)"
      and "map_of attrs ''version'' = Some (JStr version)"
      and "map_of attrs ''filename'' = Some (JStr filename)"
  shows "load_attempt e base (JDict kvs) lib =
     (let libpath = path_join e base [cuda, lib, version, lib64dir e]
      in if file_exists e libpath
         then (case CDLL e (JStr libpath) of
                 Inr h \<Rightarrow> Some (JStr libpath, h) | Inl x \<Rightarrow> None)
         else (case CDLL e (JStr filename) of
                 Inr h \<Rightarrow> Some (JStr filename, h) | Inl x \<Rightarrow> None))"
  using assms by (simp add: load_attempt_def os_path_join_def Let_def)

lemma qualified_load_raises_absent:
  "map_of kvs lib = None \<Longrightarrow> \<not> qualified_load_raises e base (JDict kvs) lib"
  by (simp add: qualified_load_raises_def split: sum.splits)

lemma qualified_load_raises_present:
  assumes "map_of kvs ''cuda'' = Some (JStr cuda)"
      and "map_of kvs lib = Some (JDict attrs)"
      and "map_of attrs ''version'' = Some (JStr version)"
  shows "qualified_load_raises e base (JDict kvs) lib =
     (let libpath = path_join e base [cuda, lib, version, lib64dir e]
      in file_exists e libpath \<and>
         (case CDLL e (JStr libpath) of Inl x \<Rightarrow> True | Inr h \<Rightarrow> False))"
  using assms by (simp add: qualified_load_raises_def os_path_join_def Let_def)

text \<open>What the two branches do to the library table, and when the qualified-path
  branch raises.\<close>

lemma load_libpath_libs:
  "u_preload_libs (snd (load_libpath e lib libpath s)) =
     (case CDLL e (JStr libpath) of
        Inr h \<Rightarrow> AList.update lib (Some (JStr libpath, h)) (u_preload_libs s)
      | Inl x \<Rightarrow> u_preload_libs s)"
  by (simp add: load_libpath_def ctypes_CDLL_def warnings_warn_def Let_def split: sum.splits)

lemma load_libpath_result:
  "fst (load_libpath e lib libpath s) =
     (case CDLL e (JStr libpath) of
        Inr h \<Rightarrow> Inr ()
      | Inl x \<Rightarrow>
          if warnings_error e then Inl (Raised ''UserWarning'' (failure_text libpath x))
          else Inr ())"
  by (simp add: load_libpath_def ctypes_CDLL_def warnings_warn_def Let_def split: sum.splits)

lemma load_filename_libs:
  "u_preload_libs (load_filename e lib libpath filename s) =
     (case CDLL e filename of
        Inr h \<Rightarrow> AList.update lib (Some (filename, h)) (u_preload_libs s)
      | Inl x \<Rightarrow> u_preload_libs s)"
  by (simp add: load_filename_def ctypes_CDLL_def Let_def split: sum.splits)

text \<open>One iteration on an entry of the required shape returns normally unless the
  warnings filter turns the warning of a failed qualified-path load into an exception,
  and changes the table at its own key only.\<close>

lemma preload_lib_wf:
  assumes cuda: "map_of kvs ''cuda'' = Some (JStr cuda)"
      and wf: "case map_of kvs lib of None \<Rightarrow> True | Some entry \<Rightarrow> wf_entry entry"
      and quiet: "\<not> warnings_error e \<or> \<not> qualified_load_raises e base (JDict kvs) lib"
  shows "fst (preload_lib e (JDict kvs) base lib s) = Inr () \<and>
         u_preload_libs (snd (preload_lib e (JDict kvs) base lib s)) =
           (case load_attempt e base (JDict kvs) lib of
              None \<Rightarrow> u_preload_libs s
            | Some v \<Rightarrow> AList.update lib (Some v) (u_preload_libs s))"
proof (cases "map_of kvs lib")
  case None
  then show ?thesis by (simp add: preload_lib_absent load_attempt_absent)
next
  case (Some entry)
  with wf have "wf_entry entry" by simp
  then obtain attrs version filename where entry: "entry = JDict attrs"
    and v: "map_of attrs ''version'' = Some (JStr version)"
    and f: "map_of attrs ''filename'' = Some (JStr filename)"
    by (rule wf_entryE)
  from Some entry have l: "map_of kvs lib = Some (JDict attrs)" by simp
  show ?thesis
    using quiet
    by (auto simp add: preload_lib_present [OF cuda l v f] load_attempt_present [OF cuda l v f]
        qualified_load_raises_present [OF cuda l v]
        load_libpath_libs load_libpath_result load_filename_libs Let_def split: sum.splits)
qed

lemma preload_lib_step:
  assumes cuda: "map_of kvs ''cuda'' = Some (JStr cuda)"
      and wf: "case map_of kvs lib of None \<Rightarrow> True | Some entry \<Rightarrow> wf_entry entry"
      and quiet: "\<not> warnings_error e \<or> \<not> qualified_load_raises e base (JDict kvs) lib"
      and mem: "lib \<in> set (map fst (u_preload_libs s))"
      and dist: "distinct (map fst (u_preload_libs s))"
  shows "u_preload_libs (snd (preload_lib e (JDict kvs) base lib s)) =
           map (\<lambda>(k, old). (k, if k = lib then outcome e base (JDict kvs) k old else old))
             (u_preload_libs s)"
proof (cases "load_attempt e base (JDict kvs) lib")
  case None
  have "map (\<lambda>(k, old). (k, old)) (u_preload_libs s) = u_preload_libs s"
    by (induction "u_preload_libs s") auto
  moreover have "(\<lambda>(k, old). (k, if k = lib then outcome e base (JDict kvs) k old else old)) =
                 (\<lambda>(k, old). (k, old))"
    using None by (auto simp add: outcome_def fun_eq_iff)
  ultimately show ?thesis
    using preload_lib_wf [OF cuda wf quiet, of s] None by simp
next
  case (Some v)
  have "(\<lambda>(k, old). (k, if k = lib then outcome e base (JDict kvs) k old else old)) =
        (\<lambda>(k, old). (k, if k = lib then Some v else old))"
    using Some by (auto simp add: outcome_def fun_eq_iff)
  then show ?thesis
    using preload_lib_wf [OF cuda wf quiet, of s] Some update_present [OF mem dist, of "Some v"]
    by simp
qed

lemma preload_loop_wf:
  assumes "map_of kvs ''cuda'' = Some (JStr cuda)"
      and "list_all (\<lambda>lib. case map_of kvs lib of None \<Rightarrow> True | Some entry \<Rightarrow> wf_entry entry) libs"
      and "\<not> warnings_error e \<or>
           list_all (\<lambda>lib. \<not> qualified_load_raises e base (JDict kvs) lib) libs"
      and "set libs \<subseteq> set (map fst (u_preload_libs s))"
      and "distinct libs"
      and "distinct (map fst (u_preload_libs s))"
  shows "fst (preload_loop e (JDict kvs) base libs s) = Inr () \<and>
         u_preload_libs (snd (preload_loop e (JDict kvs) base libs s)) =
           map (\<lambda>(k, old). (k, if k \<in> set libs then outcome e base (JDict kvs) k old else old))
             (u_preload_libs s)"
  using assms
proof (induction libs arbitrary: s)
  case Nil
  have "map (\<lambda>(k, old). (k, old)) (u_preload_libs s) = u_preload_libs s"
    by (induction "u_preload_libs s") auto
  then show ?case by simp
next
  case (Cons lib libs)
  let ?r = "preload_lib e (JDict kvs) base lib s"
  have wf: "case map_of kvs lib of None \<Rightarrow> True | Some entry \<Rightarrow> wf_entry entry"
    using Cons.prems(2) by simp
  have quiet: "\<not> warnings_error e \<or> \<not> qualified_load_raises e base (JDict kvs) lib"
    using Cons.prems(3) by auto
  have quiet_rest: "\<not> warnings_error e \<or>
      list_all (\<lambda>lib. \<not> qualified_load_raises e base (JDict kvs) lib) libs"
    using Cons.prems(3) by auto
  have mem: "lib \<in> set (map fst (u_preload_libs s))"
    using Cons.prems(4) by simp
  have ok: "fst ?r = Inr ()"
    using preload_lib_wf [OF Cons.prems(1) wf quiet, of s] by simp
  have libs1: "u_preload_libs (snd ?r) =
      map (\<lambda>(k, old). (k, if k = lib then outcome e base (JDict kvs) k old else old))
        (u_preload_libs s)"
    by (rule preload_lib_step [OF Cons.prems(1) wf quiet mem Cons.prems(6)])
  have keys1: "map fst (u_preload_libs (snd ?r)) = map fst (u_preload_libs s)"
    unfolding libs1 by (simp add: case_prod_beta comp_def)
  have ih: "fst (preload_loop e (JDict kvs) base libs (snd ?r)) = Inr () \<and>
      u_preload_libs (snd (preload_loop e (JDict kvs) base libs (snd ?r))) =
        map (\<lambda>(k, old). (k, if k \<in> set libs then outcome e base (JDict kvs) k old else old))
          (u_preload_libs (snd ?r))"
    using Cons.prems(1,2,4,5,6) quiet_rest by (intro Cons.IH) (simp_all add: keys1)
  have step: "preload_loop e (JDict kvs) base (lib # libs) s =
      preload_loop e (JDict kvs) base libs (snd ?r)"
    using ok by (cases ?r) simp
  have notin: "lib \<notin> set libs" using Cons.prems(5) by simp
  have comp: "map (\<lambda>(k, old). (k, if k \<in> set libs then outcome e base (JDict kvs) k old else old))
        (map (\<lambda>(k, old). (k, if k = lib then outcome e base (JDict kvs) k old else old))
          (u_preload_libs s)) =
      map (\<lambda>(k, old). (k, if k \<in> set (lib # libs) then outcome e base (JDict kvs) k old else old))
        (u_preload_libs s)"
    using notin by (auto simp add: case_prod_beta)
  show ?case
    unfolding step using ih libs1 comp by simp
qed

text \<open>
  C3, as amended. For a manifest of the required shape whose base directory resolves,
  \<^verbatim>\<open>_preload_libraries\<close> returns normally whatever the loads do, provided the warnings
  filter does not turn warnings into exceptions or no qualified-path load raises. Every
  library of the table then ends with the result of its own load when that succeeded and
  with its previous value when it is not configured or its load raised: a failing load
  leaves the other libraries' handles as their own loads set them.
\<close>

theorem preload_batch_completes:
  assumes cfg: "fst (get_preload_config e s) = Inr config"
      and wf: "wf_manifest (map fst (u_preload_libs s)) config"
      and dist: "distinct (map fst (u_preload_libs s))"
      and base: "get_cupy_cuda_lib_path e = Inr base"
      and quiet: "\<not> warnings_error e \<or>
           list_all (\<lambda>lib. \<not> qualified_load_raises e base config lib)
             (map fst (u_preload_libs s))"
  shows "fst (u_preload_libraries e s) = Inr () \<and>
         u_preload_libs (snd (u_preload_libraries e s)) =
           map (\<lambda>(lib, old).
                  (lib, case load_attempt e base config lib of None \<Rightarrow> old | Some v \<Rightarrow> Some v))
             (u_preload_libs s)"
proof -
  from wf obtain kvs cuda where config: "config = JDict kvs"
    and cuda: "map_of kvs ''cuda'' = Some (JStr cuda)"
    and entries: "list_all (\<lambda>lib. case map_of kvs lib of None \<Rightarrow> True
                              | Some entry \<Rightarrow> wf_entry entry) (map fst (u_preload_libs s))"
    unfolding wf_manifest_def by (cases config; simp split: option.splits json.splits)
  obtain s1 where s1: "get_preload_config e s = (Inr (JDict kvs), s1)"
    using cfg config by (cases "get_preload_config e s") simp
  have libs1: "u_preload_libs s1 = u_preload_libs s"
    using get_preload_config_frame(1) [of e s] s1 by simp
  let ?s3 = "u_log (Format ''CuPy CUDA library directory: {}'' [JStr base])
               (u_log (Format ''CuPy wheel package built for CUDA {}'' [JStr cuda]) s1)"
  have run: "u_preload_libraries e s =
      preload_loop e (JDict kvs) base (map fst (u_preload_libs s)) ?s3"
    using s1 cuda libs1 base by (simp add: u_preload_libraries_def Let_def)
  have libs3: "u_preload_libs ?s3 = u_preload_libs s" using libs1 by simp
  have quiet': "\<not> warnings_error e \<or>
      list_all (\<lambda>lib. \<not> qualified_load_raises e base (JDict kvs) lib)
        (map fst (u_preload_libs s))"
    using quiet config by simp
  have "fst (preload_loop e (JDict kvs) base (map fst (u_preload_libs s)) ?s3) = Inr () \<and>
        u_preload_libs (snd (preload_loop e (JDict kvs) base
            (map fst (u_preload_libs s)) ?s3)) =
          map (\<lambda>(k, old). (k, if k \<in> set (map fst (u_preload_libs s))
                               then outcome e base (JDict kvs) k old else old))
            (u_preload_libs ?s3)"
    using cuda entries quiet' dist by (intro preload_loop_wf) (simp_all only: libs3 subset_refl)
  moreover have "map (\<lambda>(k, old). (k, if k \<in> set (map fst (u_preload_libs s))
                               then outcome e base (JDict kvs) k old else old)) (u_preload_libs s) =
        map (\<lambda>(lib, old).
                  (lib, case load_attempt e base (JDict kvs) lib of None \<Rightarrow> old | Some v \<Rightarrow> Some v))
             (u_preload_libs s)"
    by (rule map_cong) (force simp add: outcome_def)+
  ultimately show ?thesis
    unfolding run config libs3 by simp
qed

theorem preload_batch_completes_witness:
  "fst (get_preload_config env_two_libs state_two_libs) = Inr manifest_two_libs \<and>
   wf_manifest (map fst (u_preload_libs state_two_libs)) manifest_two_libs \<and>
   distinct (map fst (u_preload_libs state_two_libs)) \<and>
   get_cupy_cuda_lib_path env_two_libs = Inr ''/home/user/.cupy/cuda_lib'' \<and>
   \<not> warnings_error env_two_libs \<and>
   load_attempt env_two_libs ''/home/user/.cupy/cuda_lib'' manifest_two_libs ''cudnn'' = None \<and>
   fst (u_preload_libraries env_two_libs state_two_libs) = Inr () \<and>
   u_preload_libs (snd (u_preload_libraries env_two_libs state_two_libs)) =
     [(''cudnn'', None), (''nccl'', Some (JStr ''libnccl.so.2.7.8'', 2))] \<and>
   warnings_error env_two_libs_strict \<and>
   list_all (\<lambda>lib. \<not> qualified_load_raises env_two_libs_strict ''/home/user/.cupy/cuda_lib''
                       manifest_two_libs lib) (map fst (u_preload_libs state_two_libs)) \<and>
   fst (u_preload_libraries env_two_libs_strict state_two_libs) = Inr () \<and>
   u_preload_libs (snd (u_preload_libraries env_two_libs_strict state_two_libs)) =
     [(''cudnn'', None), (''nccl'', Some (JStr ''libnccl.so.2.7.8'', 2))]"
proof -
  let ?base = "''/home/user/.cupy/cuda_lib''"
  have libs: "u_preload_libs state_two_libs = [(''cudnn'', None), (''nccl'', None)]"
    by (simp add: env_defs)
  have wf: "wf_manifest (map fst (u_preload_libs state_two_libs)) manifest_two_libs"
    by (simp add: wf_manifest_def wf_entry_def env_defs)
  have dist: "distinct (map fst (u_preload_libs state_two_libs))"
    by (simp add: env_defs)
  have cfg: "fst (get_preload_config env_two_libs state_two_libs) = Inr manifest_two_libs"
    by (simp add: get_preload_config_def config_path_def get_cupy_install_path_def os_defs
        env_defs)
  have base: "get_cupy_cuda_lib_path env_two_libs = Inr ?base"
    by (simp add: get_cupy_cuda_lib_path_def env_defs)
  have filter: "\<not> warnings_error env_two_libs"
    by (simp add: env_defs)
  have cudnn: "load_attempt env_two_libs ?base manifest_two_libs ''cudnn'' = None"
    by (simp add: load_attempt_def preload_defs os_defs env_defs)
  have nccl: "load_attempt env_two_libs ?base manifest_two_libs ''nccl'' =
      Some (JStr ''libnccl.so.2.7.8'', 2)"
    by (simp add: load_attempt_def preload_defs os_defs env_defs)
  have cfg': "fst (get_preload_config env_two_libs_strict state_two_libs) = Inr manifest_two_libs"
    by (simp add: get_preload_config_def config_path_def get_cupy_install_path_def os_defs
        env_defs)
  have base': "get_cupy_cuda_lib_path env_two_libs_strict = Inr ?base"
    by (simp add: get_cupy_cuda_lib_path_def env_defs)
  have filter': "warnings_error env_two_libs_strict"
    by (simp add: env_defs)
  have quiet': "list_all (\<lambda>lib. \<not> qualified_load_raises env_two_libs_strict ?base
                       manifest_two_libs lib) (map fst (u_preload_libs state_two_libs))"
    by (simp add: qualified_load_raises_def preload_defs os_defs env_defs)
  have cudnn': "load_attempt env_two_libs_strict ?base manifest_two_libs ''cudnn'' = None"
    by (simp add: load_attempt_def preload_defs os_defs env_defs)
  have nccl': "load_attempt env_two_libs_strict ?base manifest_two_libs ''nccl'' =
      Some (JStr ''libnccl.so.2.7.8'', 2)"
    by (simp add: load_attempt_def preload_defs os_defs env_defs)
  have plain: "fst (u_preload_libraries env_two_libs state_two_libs) = Inr () \<and>
      u_preload_libs (snd (u_preload_libraries env_two_libs state_two_libs)) =
        [(''cudnn'', None), (''nccl'', Some (JStr ''libnccl.so.2.7.8'', 2))]"
    using preload_batch_completes [OF cfg wf dist base disjI1 [OF filter]] cudnn nccl
    by (simp add: libs)
  have strict: "fst (u_preload_libraries env_two_libs_strict state_two_libs) = Inr () \<and>
      u_preload_libs (snd (u_preload_libraries env_two_libs_strict state_two_libs)) =
        [(''cudnn'', None), (''nccl'', Some (JStr ''libnccl.so.2.7.8'', 2))]"
    using preload_batch_completes [OF cfg' wf dist base' disjI2 [OF quiet']] cudnn' nccl'
    by (simp add: libs)
  show ?thesis
    using cfg wf dist base filter cudnn plain filter' quiet' strict by (intro conjI) simp_all
qed

text \<open>The claim C3 as stated fails. Under \<^verbatim>\<open>python -W error\<close>, with the directory of
  the qualified path present, \<^verbatim>\<open>warnings.warn\<close> raises in the \<^verbatim>\<open>except\<close> clause and
  \<^verbatim>\<open>_preload_libraries\<close> raises \<^verbatim>\<open>UserWarning\<close>. With a relative
  \<^verbatim>\<open>CUPY_CUDA_LIB_PATH\<close> and the working directory removed, \<^verbatim>\<open>os.path.abspath\<close> raises
  and so does \<^verbatim>\<open>_preload_libraries\<close>. The manifest has the required shape in both.\<close>

theorem error_filter_aborts_batch:
  "wf_manifest (map fst (u_preload_libs init_state)) manifest_cudnn \<and>
   fst (get_preload_config env_wheel_lib_strict init_state) = Inr manifest_cudnn \<and>
   fst (u_preload_libraries env_wheel_lib_strict init_state) =
     Inl (Raised ''UserWarning''
       ''CuPy failed to preload library (/home/user/.cupy/cuda_lib/11.0/cudnn/8.0.0/lib64): OSError (cannot open shared object file)'') \<and>
   fst (get_preload_config env_wheel_no_cwd init_state) = Inr manifest_cudnn \<and>
   fst (u_preload_libraries env_wheel_no_cwd init_state) =
     Inl (Raised ''FileNotFoundError'' ''[Errno 2] No such file or directory'')"
  by (simp add: wf_manifest_def wf_entry_def preload_defs os_defs env_defs Let_def)

text \<open>
  C2, as amended. A manifest file that exists and holds an object is returned and cached
  by \<^verbatim>\<open>get_preload_config\<close> whatever fields it lacks. \<^verbatim>\<open>_preload_libraries\<close> then raises
  KeyError to its caller where it reads the missing field: for the toolkit version
  before anything else, and, when the base directory resolves, for the version or the file
  name of the first library of the table (the only one, \<open>cudnn\<close>, in the module's table)
  before any call of \<^verbatim>\<open>ctypes.CDLL\<close>.
\<close>

theorem missing_field_raised_at_use:
  assumes uninit: "u_preload_config s = JNull"
      and present: "file_exists e (config_path e)"
      and content: "json_load_open e (config_path e) = Inr (JDict kvs)"
      and table: "map fst (u_preload_libs s) = lib # rest"
  shows "fst (get_preload_config e s) = Inr (JDict kvs) \<and>
         u_preload_config (snd (get_preload_config e s)) = JDict kvs \<and>
         (map_of kvs ''cuda'' = None \<longrightarrow>
            fst (u_preload_libraries e s) = Inl (KeyError ''cuda'') \<and>
            cdll_calls (snd (u_preload_libraries e s)) = cdll_calls s) \<and>
         (map_of kvs ''cuda'' \<noteq> None \<and> get_cupy_cuda_lib_path e = Inr base \<and>
          map_of kvs lib = Some (JDict attrs) \<and> map_of attrs ''version'' = None \<longrightarrow>
            fst (u_preload_libraries e s) = Inl (KeyError ''version'') \<and>
            cdll_calls (snd (u_preload_libraries e s)) = cdll_calls s) \<and>
         (map_of kvs ''cuda'' \<noteq> None \<and> get_cupy_cuda_lib_path e = Inr base \<and>
          map_of kvs lib = Some (JDict attrs) \<and> map_of attrs ''version'' \<noteq> None \<and>
          map_of attrs ''filename'' = None \<longrightarrow>
            fst (u_preload_libraries e s) = Inl (KeyError ''filename'') \<and>
            cdll_calls (snd (u_preload_libraries e s)) = cdll_calls s)"
proof -
  let ?s1 = "s\<lparr>fs_probes := fs_probes s @ [Exists (config_path e), ReadJson (config_path e)],
               u_preload_config := JDict kvs\<rparr>"
  have load: "get_preload_config e s = (Inr (JDict kvs), ?s1)"
    using uninit present content
    by (simp add: get_preload_config_def os_path_exists_def json_load_def)
  have no_cuda: "fst (u_preload_libraries e s) = Inl (KeyError ''cuda'') \<and>
      cdll_calls (snd (u_preload_libraries e s)) = cdll_calls s"
    if "map_of kvs ''cuda'' = None"
    using that load by (simp add: u_preload_libraries_def)
  have entry: "fst (u_preload_libraries e s) = Inl (KeyError k) \<and>
      cdll_calls (snd (u_preload_libraries e s)) = cdll_calls s"
    if cuda: "map_of kvs ''cuda'' = Some c" and base: "get_cupy_cuda_lib_path e = Inr base"
      and body: "\<And>s'. preload_lib e (JDict kvs) base lib s' = (Inl (KeyError k), s')"
    for c k
  proof -
    let ?s3 = "u_log (Format ''CuPy CUDA library directory: {}'' [JStr base])
                 (u_log (Format ''CuPy wheel package built for CUDA {}'' [c]) ?s1)"
    have "u_preload_libraries e s = preload_loop e (JDict kvs) base (lib # rest) ?s3"
      using load cuda base table by (simp add: u_preload_libraries_def Let_def)
    then show ?thesis by (simp add: body)
  qed
  have no_version: "fst (u_preload_libraries e s) = Inl (KeyError ''version'') \<and>
      cdll_calls (snd (u_preload_libraries e s)) = cdll_calls s"
    if "map_of kvs ''cuda'' \<noteq> None" "get_cupy_cuda_lib_path e = Inr base"
      "map_of kvs lib = Some (JDict attrs)" "map_of attrs ''version'' = None"
  proof -
    from that(1) obtain c where c: "map_of kvs ''cuda'' = Some c" by auto
    show ?thesis
      by (rule entry [OF c that(2)]) (simp add: preload_lib_def that(3,4))
  qed
  have no_filename: "fst (u_preload_libraries e s) = Inl (KeyError ''filename'') \<and>
      cdll_calls (snd (u_preload_libraries e s)) = cdll_calls s"
    if "map_of kvs ''cuda'' \<noteq> None" "get_cupy_cuda_lib_path e = Inr base"
      "map_of kvs lib = Some (JDict attrs)" "map_of attrs ''version'' \<noteq> None"
      "map_of attrs ''filename'' = None"
  proof -
    from that(1) obtain c where c: "map_of kvs ''cuda'' = Some c" by auto
    from that(4) obtain v where v: "map_of attrs ''version'' = Some v" by auto
    show ?thesis
      by (rule entry [OF c that(2)]) (simp add: preload_lib_def that(3,5) v)
  qed
  show ?thesis
    using load no_cuda no_version no_filename by simp
qed

theorem missing_field_raised_at_use_witness:
  "u_preload_config init_state = JNull \<and>
   file_exists env_wheel_corrupt (config_path env_wheel_corrupt) \<and>
   json_load_open env_wheel_corrupt (config_path env_wheel_corrupt) = Inr manifest_no_filename \<and>
   map fst (u_preload_libs init_state) = [''cudnn''] \<and>
   get_cupy_cuda_lib_path env_wheel_corrupt = Inr ''/home/user/.cupy/cuda_lib'' \<and>
   fst (get_preload_config env_wheel_corrupt init_state) = Inr manifest_no_filename \<and>
   fst (u_preload_libraries env_wheel_corrupt init_state) = Inl (KeyError ''filename'') \<and>
   cdll_calls (snd (u_preload_libraries env_wheel_corrupt init_state)) = []"
proof -
  let ?kvs = "[(''cuda'', JStr ''11.0''), (''cudnn'', JDict [(''version'', JStr ''8.0.0'')])]"
  have uninit: "u_preload_config init_state = JNull" by (simp add: init_state_def)
  have p: "config_path env_wheel_corrupt = ''/opt/site-packages/cupy/_wheel.json''"
    by (simp add: config_path_def get_cupy_install_path_def env_defs)
  have present: "file_exists env_wheel_corrupt (config_path env_wheel_corrupt)"
    unfolding p by (simp add: file_exists_def env_defs)
  have content: "json_load_open env_wheel_corrupt (config_path env_wheel_corrupt) = Inr (JDict ?kvs)"
    unfolding p by (simp add: env_wheel_corrupt_def manifest_no_filename_def)
  have table: "map fst (u_preload_libs init_state) = ''cudnn'' # []"
    by (simp add: init_state_def)
  have base: "get_cupy_cuda_lib_path env_wheel_corrupt = Inr ''/home/user/.cupy/cuda_lib''"
    by (simp add: get_cupy_cuda_lib_path_def env_defs)
  have calls: "cdll_calls init_state = []" by (simp add: init_state_def)
  show ?thesis
    using missing_field_raised_at_use [OF uninit present content table,
        where base = "''/home/user/.cupy/cuda_lib''" and attrs = "[(''version'', JStr ''8.0.0'')]"]
      uninit present content table base
    by (simp add: manifest_no_filename_def calls)
qed

text \<open>The claim C2 as stated fails. The loader returns and caches the manifest whose
  \<open>cudnn\<close> entry lacks the file name. With the module's table, a manifest whose \<open>nccl\<close>
  entry lacks the file name is accepted and \<open>cudnn\<close> is loaded. With \<open>nccl\<close> in the table
  as well, the load of \<open>cudnn\<close> is attempted before KeyError is raised for \<open>nccl\<close>.\<close>

theorem loader_accepts_missing_field:
  "fst (get_preload_config env_wheel_corrupt init_state) = Inr manifest_no_filename \<and>
   u_preload_config (snd (get_preload_config env_wheel_corrupt init_state)) =
     manifest_no_filename \<and>
   fst (u_preload_libraries env_wheel_nccl_corrupt init_state) = Inr () \<and>
   cdll_calls (snd (u_preload_libraries env_wheel_nccl_corrupt init_state)) =
     [JStr ''libcudnn.so.8.0.0''] \<and>
   fst (u_preload_libraries env_wheel_nccl_corrupt state_two_libs) =
     Inl (KeyError ''filename'') \<and>
   cdll_calls (snd (u_preload_libraries env_wheel_nccl_corrupt state_two_libs)) =
     [JStr ''libcudnn.so.8.0.0'']"
  by (simp add: preload_defs os_defs env_defs Let_def)

text \<open>The two \<^verbatim>\<open>except\<close> clauses.\<close>

lemma load_libpath_raises:
  "CDLL e (JStr libpath) = Inl x \<Longrightarrow>
   load_libpath e lib libpath s =
     (if warnings_error e then Inl (Raised ''UserWarning'' (failure_text libpath x)) else Inr (),
      s\<lparr>u_preload_logs := u_preload_logs s @
           [Format ''Trying to load {}'' [JStr libpath], Text (failure_text libpath x)],
        warnings := warnings s @ [Text (failure_text libpath x)],
        cdll_calls := cdll_calls s @ [JStr libpath]\<rparr>)"
  by (simp add: load_libpath_def ctypes_CDLL_def warnings_warn_def u_log_def Let_def)

lemma load_filename_raises:
  "CDLL e filename = Inl x \<Longrightarrow>
   load_filename e lib libpath filename s =
     s\<lparr>u_preload_logs := u_preload_logs s @
          [Format ''File {} could not be found'' [JStr libpath],
           Format ''Trying to load {}'' [filename],
           Format ''Library {} could not be preloaded'' [JStr lib]],
       cdll_calls := cdll_calls s @ [filename]\<rparr>"
  by (simp add: load_filename_def ctypes_CDLL_def u_log_def Let_def)

text \<open>The loop stops at the first iteration that raises.\<close>

lemma preload_loop_step:
  "preload_loop e config base (lib # libs) s =
     (case fst (preload_lib e config base lib s) of
        Inl x \<Rightarrow> (Inl x, snd (preload_lib e config base lib s))
      | Inr u \<Rightarrow> preload_loop e config base libs (snd (preload_lib e config base lib s)))"
  by (cases "preload_lib e config base lib s") (simp split: sum.splits)

text \<open>
  C6, as amended. For a configured library of the required shape: when the qualified path
  exists and loading it raises, the failure message is appended to the log and passed to
  \<^verbatim>\<open>warnings.warn\<close>; the loop goes on with the remaining libraries unless the warnings
  filter turns the warning into an exception, in which case \<^verbatim>\<open>UserWarning\<close> is raised
  out of the loop. When the qualified path does not exist and loading the bare file name
  raises, the line \<open>Library {} could not be preloaded\<close> is appended to the log, no
  warning is issued and the loop goes on with the remaining libraries. Neither case
  changes the library table.
\<close>

theorem preload_failure_reporting:
  assumes cuda: "map_of kvs ''cuda'' = Some (JStr cuda)"
      and entry: "map_of kvs lib = Some (JDict attrs)"
      and version: "map_of attrs ''version'' = Some (JStr version)"
      and filename: "map_of attrs ''filename'' = Some (JStr filename)"
      and libpath: "libpath = path_join e base [cuda, lib, version, lib64dir e]"
      and r: "r = preload_lib e (JDict kvs) base lib s"
  shows "(file_exists e libpath \<and> CDLL e (JStr libpath) = Inl x \<longrightarrow>
            fst r = (if warnings_error e
                     then Inl (Raised ''UserWarning'' (failure_text libpath x)) else Inr ()) \<and>
            warnings (snd r) = warnings s @ [Text (failure_text libpath x)] \<and>
            u_preload_logs (snd r) = u_preload_logs s @
              [Format ''Looking for {} version {} ({})'' [JStr lib, JStr version, JStr filename],
               Format ''Trying to load {}'' [JStr libpath],
               Text (failure_text libpath x)] \<and>
            u_preload_libs (snd r) = u_preload_libs s \<and>
            preload_loop e (JDict kvs) base (lib # libs) s =
              (if warnings_error e
               then (Inl (Raised ''UserWarning'' (failure_text libpath x)), snd r)
               else preload_loop e (JDict kvs) base libs (snd r))) \<and>
         (\<not> file_exists e libpath \<and> CDLL e (JStr filename) = Inl x \<longrightarrow>
            fst r = Inr () \<and>
            warnings (snd r) = warnings s \<and>
            u_preload_logs (snd r) = u_preload_logs s @
              [Format ''Looking for {} version {} ({})'' [JStr lib, JStr version, JStr filename],
               Format ''File {} could not be found'' [JStr libpath],
               Format ''Trying to load {}'' [JStr filename],
               Format ''Library {} could not be preloaded'' [JStr lib]] \<and>
            u_preload_libs (snd r) = u_preload_libs s \<and>
            preload_loop e (JDict kvs) base (lib # libs) s =
              preload_loop e (JDict kvs) base libs (snd r))"
proof -
  have path_case: "fst r = (if warnings_error e
                     then Inl (Raised ''UserWarning'' (failure_text libpath x)) else Inr ()) \<and>
            warnings (snd r) = warnings s @ [Text (failure_text libpath x)] \<and>
            u_preload_logs (snd r) = u_preload_logs s @
              [Format ''Looking for {} version {} ({})'' [JStr lib, JStr version, JStr filename],
               Format ''Trying to load {}'' [JStr libpath],
               Text (failure_text libpath x)] \<and>
            u_preload_libs (snd r) = u_preload_libs s"
    if "file_exists e libpath" "CDLL e (JStr libpath) = Inl x"
    using that unfolding r libpath preload_lib_present [OF cuda entry version filename]
    by (simp add: Let_def load_libpath_raises u_log_def)
  have name_case: "fst r = Inr () \<and>
            warnings (snd r) = warnings s \<and>
            u_preload_logs (snd r) = u_preload_logs s @
              [Format ''Looking for {} version {} ({})'' [JStr lib, JStr version, JStr filename],
               Format ''File {} could not be found'' [JStr libpath],
               Format ''Trying to load {}'' [JStr filename],
               Format ''Library {} could not be preloaded'' [JStr lib]] \<and>
            u_preload_libs (snd r) = u_preload_libs s"
    if "\<not> file_exists e libpath" "CDLL e (JStr filename) = Inl x"
    using that unfolding r libpath preload_lib_present [OF cuda entry version filename]
    by (simp add: Let_def load_filename_raises u_log_def)
  have loop: "preload_loop e (JDict kvs) base (lib # libs) s =
      (case fst r of Inl x \<Rightarrow> (Inl x, snd r)
       | Inr u \<Rightarrow> preload_loop e (JDict kvs) base libs (snd r))"
    unfolding r by (rule preload_loop_step)
  have path_loop: "preload_loop e (JDict kvs) base (lib # libs) s =
      (if warnings_error e
       then (Inl (Raised ''UserWarning'' (failure_text libpath x)), snd r)
       else preload_loop e (JDict kvs) base libs (snd r))"
    if "file_exists e libpath" "CDLL e (JStr libpath) = Inl x"
    unfolding loop using path_case [OF that] by simp
  have name_loop: "preload_loop e (JDict kvs) base (lib # libs) s =
      preload_loop e (JDict kvs) base libs (snd r)"
    if "\<not> file_exists e libpath" "CDLL e (JStr filename) = Inl x"
    unfolding loop using name_case [OF that] by simp
  show ?thesis
    using path_case name_case path_loop name_loop by blast
qed

theorem preload_failure_reporting_witness:
  "file_exists env_wheel_lib ''/home/user/.cupy/cuda_lib/11.0/cudnn/8.0.0/lib64'' \<and>
   CDLL env_wheel_lib (JStr ''/home/user/.cupy/cuda_lib/11.0/cudnn/8.0.0/lib64'') =
     Inl (Raised ''OSError'' ''cannot open shared object file'') \<and>
   fst (preload_lib env_wheel_lib manifest_cudnn ''/home/user/.cupy/cuda_lib''
          ''cudnn'' init_state) = Inr () \<and>
   warnings (snd (preload_lib env_wheel_lib manifest_cudnn ''/home/user/.cupy/cuda_lib''
                    ''cudnn'' init_state)) =
     [Text (failure_text ''/home/user/.cupy/cuda_lib/11.0/cudnn/8.0.0/lib64''
        (Raised ''OSError'' ''cannot open shared object file''))] \<and>
   warnings_error env_wheel_lib_strict \<and>
   fst (preload_lib env_wheel_lib_strict manifest_cudnn ''/home/user/.cupy/cuda_lib''
          ''cudnn'' init_state) =
     Inl (Raised ''UserWarning''
       (failure_text ''/home/user/.cupy/cuda_lib/11.0/cudnn/8.0.0/lib64''
          (Raised ''OSError'' ''cannot open shared object file''))) \<and>
   \<not> file_exists env_wheel ''/home/user/.cupy/cuda_lib/11.0/cudnn/8.0.0/lib64'' \<and>
   CDLL env_wheel (JStr ''libcudnn.so.8.0.0'') =
     Inl (Raised ''OSError'' ''cannot open shared object file'') \<and>
   fst (preload_lib env_wheel manifest_cudnn ''/home/user/.cupy/cuda_lib''
          ''cudnn'' init_state) = Inr () \<and>
   warnings (snd (preload_lib env_wheel manifest_cudnn ''/home/user/.cupy/cuda_lib''
                    ''cudnn'' init_state)) = [] \<and>
   u_preload_logs (snd (preload_lib env_wheel manifest_cudnn ''/home/user/.cupy/cuda_lib''
                    ''cudnn'' init_state)) =
     [Format ''Looking for {} version {} ({})''
        [JStr ''cudnn'', JStr ''8.0.0'', JStr ''libcudnn.so.8.0.0''],
      Format ''File {} could not be found''
        [JStr ''/home/user/.cupy/cuda_lib/11.0/cudnn/8.0.0/lib64''],
      Format ''Trying to load {}'' [JStr ''libcudnn.so.8.0.0''],
      Format ''Library {} could not be preloaded'' [JStr ''cudnn'']]"
proof -
  let ?kvs = "[(''cuda'', JStr ''11.0''),
               (''cudnn'', JDict [(''version'', JStr ''8.0.0''),
                                  (''filename'', JStr ''libcudnn.so.8.0.0'')])]"
  let ?attrs = "[(''version'', JStr ''8.0.0''), (''filename'', JStr ''libcudnn.so.8.0.0'')]"
  let ?p = "''/home/user/.cupy/cuda_lib/11.0/cudnn/8.0.0/lib64''"
  let ?x = "Raised ''OSError'' ''cannot open shared object file''"
  have cuda: "map_of ?kvs ''cuda'' = Some (JStr ''11.0'')" by simp
  have entry: "map_of ?kvs ''cudnn'' = Some (JDict ?attrs)" by simp
  have version: "map_of ?attrs ''version'' = Some (JStr ''8.0.0'')" by simp
  have filename: "map_of ?attrs ''filename'' = Some (JStr ''libcudnn.so.8.0.0'')" by simp
  have p1: "?p = path_join env_wheel_lib ''/home/user/.cupy/cuda_lib''
                   [''11.0'', ''cudnn'', ''8.0.0'', lib64dir env_wheel_lib]"
    by (simp add: lib64dir_def startswith_def env_defs)
  have p2: "?p = path_join env_wheel ''/home/user/.cupy/cuda_lib''
                   [''11.0'', ''cudnn'', ''8.0.0'', lib64dir env_wheel]"
    by (simp add: lib64dir_def startswith_def env_defs)
  have p3: "?p = path_join env_wheel_lib_strict ''/home/user/.cupy/cuda_lib''
                   [''11.0'', ''cudnn'', ''8.0.0'', lib64dir env_wheel_lib_strict]"
    by (simp add: lib64dir_def startswith_def env_defs)
  have ex1: "file_exists env_wheel_lib ?p" by (simp add: file_exists_def env_defs)
  have raise1: "CDLL env_wheel_lib (JStr ?p) = Inl ?x" by (simp add: env_defs)
  have filter1: "\<not> warnings_error env_wheel_lib" by (simp add: env_defs)
  have ex2: "\<not> file_exists env_wheel ?p" by (simp add: file_exists_def env_defs)
  have raise2: "CDLL env_wheel (JStr ''libcudnn.so.8.0.0'') = Inl ?x" by (simp add: env_defs)
  have ex3: "file_exists env_wheel_lib_strict ?p" by (simp add: file_exists_def env_defs)
  have raise3: "CDLL env_wheel_lib_strict (JStr ?p) = Inl ?x" by (simp add: env_defs)
  have filter3: "warnings_error env_wheel_lib_strict" by (simp add: env_defs)
  have logs: "u_preload_logs init_state = []" and warns: "warnings init_state = []"
    by (simp_all add: init_state_def)
  note plain = preload_failure_reporting [OF cuda entry version filename p1 refl,
      where s = init_state and x = ?x]
  note strict = preload_failure_reporting [OF cuda entry version filename p3 refl,
      where s = init_state and x = ?x]
  note fallback = preload_failure_reporting [OF cuda entry version filename p2 refl,
      where s = init_state and x = ?x]
  have a: "fst (preload_lib env_wheel_lib (JDict ?kvs) ''/home/user/.cupy/cuda_lib''
             ''cudnn'' init_state) = Inr () \<and>
      warnings (snd (preload_lib env_wheel_lib (JDict ?kvs) ''/home/user/.cupy/cuda_lib''
                    ''cudnn'' init_state)) = [Text (failure_text ?p ?x)]"
    using plain ex1 raise1 filter1 by (simp add: warns)
  have b: "fst (preload_lib env_wheel_lib_strict (JDict ?kvs) ''/home/user/.cupy/cuda_lib''
             ''cudnn'' init_state) = Inl (Raised ''UserWarning'' (failure_text ?p ?x))"
    using strict ex3 raise3 filter3 by simp
  have c: "fst (preload_lib env_wheel (JDict ?kvs) ''/home/user/.cupy/cuda_lib''
             ''cudnn'' init_state) = Inr () \<and>
      warnings (snd (preload_lib env_wheel (JDict ?kvs) ''/home/user/.cupy/cuda_lib''
                    ''cudnn'' init_state)) = [] \<and>
      u_preload_logs (snd (preload_lib env_wheel (JDict ?kvs) ''/home/user/.cupy/cuda_lib''
                    ''cudnn'' init_state)) =
        [Format ''Looking for {} version {} ({})''
           [JStr ''cudnn'', JStr ''8.0.0'', JStr ''libcudnn.so.8.0.0''],
         Format ''File {} could not be found'' [JStr ?p],
         Format ''Trying to load {}'' [JStr ''libcudnn.so.8.0.0''],
         Format ''Library {} could not be preloaded'' [JStr ''cudnn'']]"
    using fallback ex2 raise2 by (simp add: warns logs)
  show ?thesis
    unfolding manifest_cudnn_def
    using ex1 raise1 a filter3 b ex2 raise2 c by (intro conjI) simp_all
qed

text \<open>The claim C6 as stated fails: in a wheel installation with no library anywhere,
  the fallback load of \<open>libcudnn.so.8.0.0\<close> raises and no warning is issued.\<close>

theorem fallback_failure_not_warned:
  "fst (u_preload_libraries env_wheel init_state) = Inr () \<and>
   cdll_calls (snd (u_preload_libraries env_wheel init_state)) = [JStr ''libcudnn.so.8.0.0''] \<and>
   CDLL env_wheel (JStr ''libcudnn.so.8.0.0'') =
     Inl (Raised ''OSError'' ''cannot open shared object file'') \<and>
   warnings (snd (u_preload_libraries env_wheel init_state)) = []"
  by (simp add: preload_defs os_defs env_defs Let_def)

end
